theory Spec2Isabelle
  imports Main "HOL-Library.AList" "HOL-Library.Multiset" "HOL-Library.List_Lexorder"
    "HOL-Library.Product_Lexorder"
begin

chapter \<open>Embedded Targets Manager: a model of the orchestration core\<close>

text \<open>
  The theory embeds the TypeScript sources of the extension: the output classifier and the
  scheduler of \<^verbatim>\<open>runner/targetRunner.ts\<close>, the state store of \<^verbatim>\<open>state/stateStore.ts\<close>,
  the dashboard controller, generator selection, configure, target detection and module
  discovery. Each definition names the source function it follows. The first part holds
  the model, the second part the properties proved about it.

  Conventions of the embedding.
  \<^item> A JavaScript string is a \<^typ>\<open>string\<close>; a \<^typ>\<open>char\<close> stands for one UTF-16 code unit
    in the range 0..255, which covers every literal the sources compare against.
  \<^item> An object used as a dictionary (\<^verbatim>\<open>runs\<close>, \<^verbatim>\<open>availability\<close>) and a \<^verbatim>\<open>Map\<close> are
    association lists of their own entries in insertion order; assignment to an existing
    key keeps its position, as in JavaScript. Properties inherited from
    \<^verbatim>\<open>Object.prototype\<close> are outside the model.
  \<^item> A rejected promise or a thrown exception is a value \<open>Inl e\<close>; every \<^verbatim>\<open>try/catch\<close> of the
    source is a case distinction on it.
  \<^item> The single-threaded event loop is modelled one handler at a time: a handler runs up to
    its first \<^verbatim>\<open>await\<close> on a collaborator, and the code after that \<^verbatim>\<open>await\<close> is a handler
    of its own, run when the collaborator answers.
\<close>

chapter \<open>The model\<close>

section \<open>Strings and the regular expressions of the sources\<close>

text \<open>
  \<^verbatim>\<open>\s\<close> of a JavaScript regular expression is white space together with the line
  terminators; in the range of \<^typ>\<open>char\<close> these are TAB, LF, VT, FF, CR, SPACE and NBSP.
  With the flag \<^verbatim>\<open>m\<close>, \<^verbatim>\<open>^\<close> matches at the start of the input and after a line terminator.
\<close>

definition isLineTerminator :: "char \<Rightarrow> bool" where
  "isLineTerminator c \<longleftrightarrow> c = CHR 0x0A \<or> c = CHR 0x0D"

definition isWhiteSpace :: "char \<Rightarrow> bool" where
  "isWhiteSpace c \<longleftrightarrow>
     c \<in> set [CHR 0x09, CHR 0x0A, CHR 0x0B, CHR 0x0C, CHR 0x0D, CHR 0x20, CHR 0xA0]"

text \<open>
  The flag \<^verbatim>\<open>i\<close> compares canonicalised code units. For the ASCII letters of the patterns
  below this is the comparison of ASCII upper-case forms: no code unit outside ASCII is
  canonicalised to an ASCII letter.
\<close>

definition asciiUpper :: "char \<Rightarrow> char" where
  "asciiUpper c =
     (case map_of (zip ''abcdefghijklmnopqrstuvwxyz'' ''ABCDEFGHIJKLMNOPQRSTUVWXYZ'') c of
        Some u \<Rightarrow> u
      | None \<Rightarrow> c)"

definition eq_ci :: "char \<Rightarrow> char \<Rightarrow> bool" where
  "eq_ci p c \<longleftrightarrow> asciiUpper p = asciiUpper c"

text \<open>\<open>lit_ci p s\<close> matches the literal \<open>p\<close> at the head of \<open>s\<close>, ignoring case, and returns
  the rest of \<open>s\<close>; \<open>lit p s\<close> is the case-sensitive match.\<close>

fun lit_ci :: "string \<Rightarrow> string \<Rightarrow> string option" where
  "lit_ci [] s = Some s"
| "lit_ci (p # ps) [] = None"
| "lit_ci (p # ps) (c # cs) = (if eq_ci p c then lit_ci ps cs else None)"

fun lit :: "string \<Rightarrow> string \<Rightarrow> string option" where
  "lit [] s = Some s"
| "lit (p # ps) [] = None"
| "lit (p # ps) (c # cs) = (if p = c then lit ps cs else None)"

text \<open>\<^verbatim>\<open>\s*:\<close> at the head of a string. The colon is not white space, so the greedy
  \<^verbatim>\<open>\s*\<close> never has to give a character back.\<close>

definition ws_star_colon :: "string \<Rightarrow> bool" where
  "ws_star_colon s = (case dropWhile isWhiteSpace s of [] \<Rightarrow> False | c # _ \<Rightarrow> c = CHR '':'')"

text \<open>\<^verbatim>\<open>warning\s*:\<close> and \<^verbatim>\<open>(fatal\s+)?error\s*:\<close> at the head of a string, ignoring case.\<close>

definition warning_body :: "string \<Rightarrow> bool" where
  "warning_body s = (case lit_ci ''warning'' s of None \<Rightarrow> False | Some r \<Rightarrow> ws_star_colon r)"

definition error_word :: "string \<Rightarrow> bool" where
  "error_word s = (case lit_ci ''error'' s of None \<Rightarrow> False | Some r \<Rightarrow> ws_star_colon r)"

definition error_body :: "string \<Rightarrow> bool" where
  "error_body s \<longleftrightarrow>
     (case lit_ci ''fatal'' s of
        Some (c # r) \<Rightarrow> isWhiteSpace c \<and> error_word (dropWhile isWhiteSpace r)
      | _ \<Rightarrow> False)
     \<or> error_word s"

text \<open>
  \<^verbatim>\<open>/(^|\s)BODY/m.test(s)\<close>: some position of \<open>s\<close> is a line start where \<open>BODY\<close> matches,
  or holds a white-space character after which \<open>BODY\<close> matches. The flag \<open>bol\<close> says whether
  the current position is a line start.
\<close>

fun search_bol_or_ws :: "(string \<Rightarrow> bool) \<Rightarrow> bool \<Rightarrow> string \<Rightarrow> bool" where
  "search_bol_or_ws body bol [] = (bol \<and> body [])"
| "search_bol_or_ws body bol (c # cs) =
     ((bol \<and> body (c # cs)) \<or> (isWhiteSpace c \<and> body cs)
      \<or> search_bol_or_ws body (isLineTerminator c) cs)"

definition warningPattern_test :: "string \<Rightarrow> bool" where
  \<comment> \<open>\<^verbatim>\<open>/(^|\s)warning\s*:/im\<close>\<close>
  "warningPattern_test s = search_bol_or_ws warning_body True s"

definition errorPattern_test :: "string \<Rightarrow> bool" where
  \<comment> \<open>\<^verbatim>\<open>/(^|\s)(fatal\s+)?error\s*:/im\<close>\<close>
  "errorPattern_test s = search_bol_or_ws error_body True s"

definition trim :: "string \<Rightarrow> string" where
  \<comment> \<open>\<^verbatim>\<open>String.prototype.trim\<close>\<close>
  "trim s = rev (dropWhile isWhiteSpace (rev (dropWhile isWhiteSpace s)))"

section \<open>Run status and its classification (runner/targetRunner.ts)\<close>

datatype TargetRunStatus = Idle | Running | Success | Warning | Failed

text \<open>\<^verbatim>\<open>TargetRunner.resolveOutputStatus\<close>.\<close>

definition resolveOutputStatus :: "int \<Rightarrow> string \<Rightarrow> TargetRunStatus" where
  "resolveOutputStatus exitCode output =
     (if exitCode \<noteq> 0 then Failed
      else if output = [] then Success
      else if errorPattern_test output then Failed
      else if warningPattern_test output then Warning
      else Success)"

text \<open>The results of \<^verbatim>\<open>runCommand\<close> and \<^verbatim>\<open>runCommandWithExitCode\<close> (utils/exec.ts); the
  exit code is absent when the process could not be started or was killed.\<close>

record ExecResult =
  stdout :: string
  stderr :: string

record ExecResultWithExitCode = ExecResult +
  exitCode :: "int option"

text \<open>The classification made by \<^verbatim>\<open>executeSilently\<close>:
  \<^verbatim>\<open>resolveOutputStatus(result.exitCode ?? 1, `${result.stdout}\n${result.stderr}`.trim())\<close>.\<close>

definition silentOutput :: "ExecResultWithExitCode \<Rightarrow> string" where
  "silentOutput result = trim (stdout result @ [CHR 0x0A] @ stderr result)"

definition silentStatus :: "ExecResultWithExitCode \<Rightarrow> TargetRunStatus" where
  "silentStatus result =
     resolveOutputStatus (case exitCode result of None \<Rightarrow> 1 | Some c \<Rightarrow> c) (silentOutput result)"

text \<open>\<^verbatim>\<open>resolveDiagnosticsStatus\<close>, from the counts that \<^verbatim>\<open>getDiagnosticsCounts\<close> returns once
  the diagnostics have settled.\<close>

record DiagnosticsCounts =
  warnings :: nat
  errors :: nat

definition resolveDiagnosticsStatus :: "DiagnosticsCounts \<Rightarrow> TargetRunStatus" where
  "resolveDiagnosticsStatus current =
     (if errors current > 0 then Failed
      else if warnings current > 0 then Warning
      else Success)"

text \<open>The classification made by \<^verbatim>\<open>handleTaskEnd\<close> for a task that ended with \<open>code\<close>, whose
  module path is \<open>modulePath\<close> (absent when the run is not tracked) and whose captured
  output is \<open>output\<close>.\<close>

definition taskEndStatus ::
  "int option \<Rightarrow> string option \<Rightarrow> DiagnosticsCounts \<Rightarrow> string \<Rightarrow> TargetRunStatus" where
  "taskEndStatus code modulePath current output =
     (let status0 = (if code = Some 0 then Success else Failed);
          status1 = (if status0 = Success \<and> modulePath \<noteq> None \<and> modulePath \<noteq> Some []
                     then resolveDiagnosticsStatus current else status0);
          status2 = (if status1 = Success \<and> output \<noteq> []
                     then resolveOutputStatus 0 output else status1)
      in status2)"

section \<open>The state store (state/types.ts, state/stateStore.ts)\<close>

datatype CMakeGenerator = Ninja | UnixMakefiles

datatype ConfigureStatus = ConfigureIdle | ConfigureRunning | ConfigureSuccess | ConfigureFailed

text \<open>\<^verbatim>\<open>ModuleInfo\<close>; the workspace folder is kept by its path.\<close>

record ModuleInfo =
  info_id :: string
  info_name :: string
  info_path :: string
  workspaceFolder :: string

record TargetDefinition =
  name :: string

record RunResult =
  status :: TargetRunStatus
  run_exitCode :: "int option"
  startedAt :: "int option"
  finishedAt :: "int option"

text \<open>\<^verbatim>\<open>ConfigureResult\<close> of state/types.ts.\<close>

record StoreConfigureResult =
  cfg_status :: ConfigureStatus
  cfg_output :: "string option"
  updatedAt :: "int option"

record ModuleState =
  module :: ModuleInfo
  availability :: "(string \<times> bool) list"
  runs :: "(string \<times> RunResult) list"
  generator :: "CMakeGenerator option"
  needsConfigure :: bool
  configure :: StoreConfigureResult

record StateStore =
  modules :: "ModuleState list"
  targets :: "TargetDefinition list"



text \<open>
  The object literals passed to \<^verbatim>\<open>updateRun\<close> and \<^verbatim>\<open>updateConfigure\<close>: the status is always
  given; for each optional key the outer \<open>option\<close> says whether the literal has the key, and
  the inner one is its value (\<^verbatim>\<open>undefined\<close> is \<open>None\<close>). The spread
  \<^verbatim>\<open>{ ...old, ...update }\<close> takes every key of the update and the other keys from \<open>old\<close>.
\<close>

record RunResultUpdate =
  set_status :: TargetRunStatus
  set_exitCode :: "int option option"
  set_startedAt :: "int option option"
  set_finishedAt :: "int option option"


definition keep :: "'a option option \<Rightarrow> 'a option \<Rightarrow> 'a option" where
  "keep new old = (case new of Some v \<Rightarrow> v | None \<Rightarrow> old)"

definition mergeRun :: "RunResult option \<Rightarrow> RunResultUpdate \<Rightarrow> RunResult" where
  "mergeRun old update =
     \<lparr>status = set_status update,
      run_exitCode = keep (set_exitCode update) (case old of None \<Rightarrow> None | Some r \<Rightarrow> run_exitCode r),
      startedAt = keep (set_startedAt update) (case old of None \<Rightarrow> None | Some r \<Rightarrow> startedAt r),
      finishedAt = keep (set_finishedAt update) (case old of None \<Rightarrow> None | Some r \<Rightarrow> finishedAt r)\<rparr>"







text \<open>\<^verbatim>\<open>this.modules.find((state) => state.module.id === moduleId)\<close>, and the mutation of the
  module state it finds: only the first state with the id is touched.\<close>

definition getModuleState :: "StateStore \<Rightarrow> string \<Rightarrow> ModuleState option" where
  "getModuleState s moduleId = find (\<lambda>state. info_id (module state) = moduleId) (modules s)"

fun updateFirst :: "string \<Rightarrow> (ModuleState \<Rightarrow> ModuleState) \<Rightarrow> ModuleState list \<Rightarrow> ModuleState list" where
  "updateFirst moduleId f [] = []"
| "updateFirst moduleId f (state # rest) =
     (if info_id (module state) = moduleId then f state # rest
      else state # updateFirst moduleId f rest)"




definition updateRun :: "string \<Rightarrow> string \<Rightarrow> RunResultUpdate \<Rightarrow> StateStore \<Rightarrow> StateStore" where
  "updateRun moduleId targetName update s =
     s\<lparr>modules :=
         updateFirst moduleId
           (\<lambda>st. st\<lparr>runs := AList.update targetName (mergeRun (map_of (runs st) targetName) update) (runs st)\<rparr>)
           (modules s)\<rparr>"


text \<open>\<^verbatim>\<open>getFailedTargets\<close> and \<^verbatim>\<open>getAllTargets\<close>; \<^verbatim>\<open>availability[name]\<close> is truthy when the
  entry is there and is \<^verbatim>\<open>true\<close>.\<close>

definition isAvailable :: "ModuleState \<Rightarrow> string \<Rightarrow> bool" where
  "isAvailable moduleState targetName \<longleftrightarrow> map_of (availability moduleState) targetName = Some True"


definition getAllTargets :: "StateStore \<Rightarrow> (ModuleInfo \<times> string) list" where
  "getAllTargets s =
     concat (map (\<lambda>moduleState.
                    map (\<lambda>target. (module moduleState, name target))
                      (filter (\<lambda>target. isAvailable moduleState (name target)) (targets s)))
                 (modules s))"






section \<open>The scheduler (runner/targetRunner.ts)\<close>

text \<open>\<^verbatim>\<open>makeJobs: string | number\<close>.\<close>

datatype MakeJobs = JobsText string | JobsNumber int

record RunRequest =
  req_module :: ModuleInfo
  req_target :: string
  useNinja :: bool
  makeJobs :: MakeJobs
  req_autoCloseOnSuccess :: bool
  runInTerminal :: "bool option"

record RunUpdate =
  upd_moduleId :: string
  upd_target :: string
  upd_status :: TargetRunStatus
  upd_exitCode :: "int option"

text \<open>A \<^verbatim>\<open>vscode.TaskExecution\<close> is known by a number.\<close>

type_synonym TaskExecution = nat

datatype RunningEntry = Task TaskExecution | Silent

text \<open>
  What the scheduler does to its collaborators, in the order it does it:
  \<^item> \<open>Fire u\<close>: \<^verbatim>\<open>this.updates.fire(u)\<close>;
  \<^item> \<open>ExecuteTask key request\<close>: \<^verbatim>\<open>vscode.tasks.executeTask(createTargetTask(...))\<close> is called
    for the request; the scheduler then awaits the execution handle;
  \<^item> \<open>RunCommand key request\<close>: \<^verbatim>\<open>runCommandWithExitCode(getTargetCommand(...))\<close> is called for
    the request; the scheduler then awaits its result;
  \<^item> \<open>Terminate e\<close>: \<^verbatim>\<open>execution.terminate()\<close>;
  \<^item> \<open>DisposeTerminal n\<close>: the terminal named \<open>n\<close>, when there is one, is disposed.
\<close>

datatype Effect =
    Fire RunUpdate
  | ExecuteTask string RunRequest
  | RunCommand string RunRequest
  | Terminate TaskExecution
  | DisposeTerminal string

record TargetRunner =
  pending :: "RunRequest list"
  running :: "(string \<times> RunningEntry) list"
  taskNames :: "(string \<times> string) list"
  modulePaths :: "(string \<times> string) list"
  runStartedAt :: "(string \<times> int) list"
  autoCloseOnSuccess :: "(string \<times> bool) list"
  taskOutput :: "(string \<times> string) list"
  maxParallel :: int

definition newRunner :: "int \<Rightarrow> TargetRunner" where
  \<comment> \<open>\<^verbatim>\<open>new TargetRunner(maxParallel)\<close>\<close>
  "newRunner n =
     \<lparr>pending = [], running = [], taskNames = [], modulePaths = [], runStartedAt = [],
      autoCloseOnSuccess = [], taskOutput = [], maxParallel = n\<rparr>"

definition getKey :: "string \<Rightarrow> string \<Rightarrow> string" where
  "getKey moduleId target = moduleId @ '':'' @ target"

definition getTaskName :: "string \<Rightarrow> string \<Rightarrow> string" where
  "getTaskName moduleName target = moduleName @ '':'' @ target"

definition requestKey :: "RunRequest \<Rightarrow> string" where
  "requestKey request = getKey (info_id (req_module request)) (req_target request)"

definition runningUpdate :: "RunRequest \<Rightarrow> RunUpdate" where
  \<comment> \<open>\<^verbatim>\<open>{ moduleId: request.module.id, target: request.target, status: 'running' }\<close>\<close>
  "runningUpdate request =
     \<lparr>upd_moduleId = info_id (req_module request), upd_target = req_target request,
      upd_status = Running, upd_exitCode = None\<rparr>"

text \<open>\<^verbatim>\<open>executeInTerminal\<close> up to its \<^verbatim>\<open>await\<close>, and the statement after it, run when
  \<^verbatim>\<open>executeTask\<close> has answered with the execution handle.\<close>

definition executeInTerminal :: "RunRequest \<Rightarrow> string \<Rightarrow> TargetRunner \<Rightarrow> TargetRunner \<times> Effect list" where
  "executeInTerminal request key r =
     (r\<lparr>taskOutput := AList.update key [] (taskOutput r)\<rparr>, [ExecuteTask key request])"

definition taskStarted :: "string \<Rightarrow> TaskExecution \<Rightarrow> TargetRunner \<Rightarrow> TargetRunner" where
  "taskStarted key execution r = r\<lparr>running := AList.update key (Task execution) (running r)\<rparr>"

text \<open>\<^verbatim>\<open>execute\<close> up to its first \<^verbatim>\<open>await\<close>; \<open>now\<close> is what \<^verbatim>\<open>Date.now()\<close> returns.\<close>

definition execute :: "int \<Rightarrow> RunRequest \<Rightarrow> TargetRunner \<Rightarrow> TargetRunner \<times> Effect list" where
  "execute now request r =
     (let key = requestKey request;
          r1 = r\<lparr>modulePaths := AList.update key (info_path (req_module request)) (modulePaths r),
                 runStartedAt := AList.update key now (runStartedAt r),
                 taskOutput := AList.update key [] (taskOutput r)\<rparr>
      in if runInTerminal request = Some False
         then (r1\<lparr>running := AList.update key Silent (running r1)\<rparr>,
               [Fire (runningUpdate request), RunCommand key request])
         else (fst (executeInTerminal request key r1),
               Fire (runningUpdate request) # snd (executeInTerminal request key r1)))"

lemma pending_execute: "pending (fst (execute now request r)) = pending r"
  by (simp add: execute_def executeInTerminal_def Let_def)

text \<open>\<^verbatim>\<open>kick\<close>: the dispatch loop. \<^verbatim>\<open>running.size\<close> is the number of entries of the map.\<close>

function kick :: "int \<Rightarrow> TargetRunner \<Rightarrow> TargetRunner \<times> Effect list" where
  "kick now r =
     (if int (length (running r)) < maxParallel r \<and> pending r \<noteq> []
      then (let started = execute now (hd (pending r)) (r\<lparr>pending := tl (pending r)\<rparr>);
                rest = kick now (fst started)
            in (fst rest, snd started @ snd rest))
      else (r, []))"
  by pat_completeness auto
termination
  by (relation "measure (\<lambda>(now, r). length (pending r))") (auto simp: pending_execute)

declare kick.simps [simp del]


definition isQueuedOrRunning :: "TargetRunner \<Rightarrow> string \<Rightarrow> bool" where
  \<comment> \<open>\<^verbatim>\<open>this.running.has(key) || this.pending.some((item) => this.getKey(...) === key)\<close>\<close>
  "isQueuedOrRunning r key \<longleftrightarrow>
     map_of (running r) key \<noteq> None \<or> list_ex (\<lambda>item. requestKey item = key) (pending r)"

definition enqueue :: "int \<Rightarrow> RunRequest \<Rightarrow> TargetRunner \<Rightarrow> TargetRunner \<times> Effect list" where
  "enqueue now request r =
     (let key = requestKey request
      in if isQueuedOrRunning r key then (r, [])
         else kick now
                (r\<lparr>taskNames :=
                      AList.update key (getTaskName (info_name (req_module request)) (req_target request))
                        (taskNames r),
                    autoCloseOnSuccess := AList.update key (req_autoCloseOnSuccess request) (autoCloseOnSuccess r),
                    pending := pending r @ [request]\<rparr>))"

definition stopAll :: "TargetRunner \<Rightarrow> TargetRunner \<times> Effect list" where
  "stopAll r =
     (r\<lparr>pending := []\<rparr>,
      concat (map (\<lambda>(key, entry). case entry of Task execution \<Rightarrow> [Terminate execution] | Silent \<Rightarrow> [])
                  (running r)))"

text \<open>
  \<^verbatim>\<open>executeSilently\<close> after its \<^verbatim>\<open>await\<close>: the command has answered with \<open>result\<close>. The
  listeners of the update event run inside \<^verbatim>\<open>fire\<close>; here the event is recorded, and what a
  listener does to the scheduler is a call of its own.
\<close>

definition completionUpdate :: "RunRequest \<Rightarrow> TargetRunStatus \<Rightarrow> int option \<Rightarrow> RunUpdate" where
  "completionUpdate request st code =
     \<lparr>upd_moduleId = info_id (req_module request), upd_target = req_target request,
      upd_status = st, upd_exitCode = code\<rparr>"

definition silentFinished ::
  "int \<Rightarrow> RunRequest \<Rightarrow> ExecResultWithExitCode \<Rightarrow> TargetRunner \<Rightarrow> TargetRunner \<times> Effect list" where
  "silentFinished now request result r =
     (let key = requestKey request;
          st = silentStatus result
      in if st = Success
         then (let r1 = r\<lparr>running := AList.delete key (running r)\<rparr>;
                   fired = Fire (completionUpdate request st
                                   (Some (case exitCode result of None \<Rightarrow> 0 | Some c \<Rightarrow> c)));
                   r2 = r1\<lparr>modulePaths := AList.delete key (modulePaths r1),
                           runStartedAt := AList.delete key (runStartedAt r1),
                           autoCloseOnSuccess := AList.delete key (autoCloseOnSuccess r1)\<rparr>
               in (fst (kick now r2), fired # snd (kick now r2)))
         else (let r1 = r\<lparr>running := AList.delete key (running r),
                          autoCloseOnSuccess := AList.update key False (autoCloseOnSuccess r),
                          runStartedAt := AList.update key now (runStartedAt r)\<rparr>;
                   escalated = executeInTerminal (request\<lparr>runInTerminal := Some True\<rparr>) key r1
               in (fst escalated, Fire (runningUpdate request) # snd escalated)))"

text \<open>
  \<^verbatim>\<open>handleTaskEnd\<close> for the end of a task of type \<^verbatim>\<open>targetsManager\<close> with exit code \<open>code\<close>.
  The handler removes the entry, reads the module path and the output, waits for the
  diagnostics to settle when the exit code is 0 (\<open>current\<close> are the counts it then reads)
  and goes on; the model runs the two halves together.
\<close>

definition handleTaskEnd ::
  "int \<Rightarrow> string \<Rightarrow> string \<Rightarrow> int option \<Rightarrow> DiagnosticsCounts \<Rightarrow> TargetRunner \<Rightarrow> TargetRunner \<times> Effect list" where
  "handleTaskEnd now mid target code current r =
     (if mid = [] \<or> target = [] then (r, [])
      else
        (let key = getKey mid target;
             r1 = r\<lparr>running := AList.delete key (running r)\<rparr>;
             output = (case map_of (taskOutput r1) key of None \<Rightarrow> [] | Some out \<Rightarrow> out);
             st = taskEndStatus code (map_of (modulePaths r1) key) current output;
             closing = (if st = Success \<and> map_of (autoCloseOnSuccess r1) key = Some True
                        then (case map_of (taskNames r1) key of
                                None \<Rightarrow> []
                              | Some taskName \<Rightarrow> if taskName = [] then [] else [DisposeTerminal taskName])
                        else []);
             fired = Fire \<lparr>upd_moduleId = mid, upd_target = target, upd_status = st, upd_exitCode = code\<rparr>;
             r2 = r1\<lparr>modulePaths := AList.delete key (modulePaths r1),
                     runStartedAt := AList.delete key (runStartedAt r1),
                     autoCloseOnSuccess := AList.delete key (autoCloseOnSuccess r1),
                     taskOutput := AList.delete key (taskOutput r1)\<rparr>
         in (fst (kick now r2), closing @ fired # snd (kick now r2))))"

text \<open>What the dispatch of a request does to the collaborators, and the events that report
  a finished run.\<close>

definition dispatchOf :: "RunRequest \<Rightarrow> Effect set" where
  "dispatchOf request =
     {Fire (runningUpdate request), ExecuteTask (requestKey request) request,
      RunCommand (requestKey request) request}"

fun isCompletion :: "Effect \<Rightarrow> bool" where
  "isCompletion (Fire u) = (upd_status u \<noteq> Running)"
| "isCompletion _ = False"

section \<open>The dashboard controller\<close>

datatype BuildSystem = Auto | NinjaBuild | MakeBuild

text \<open>\<^verbatim>\<open>RunnerSettings\<close> as \<^verbatim>\<open>getRunnerSettings\<close> returns them: \<open>settings_makeJobs\<close> is
  \<open>JobsText ''auto''\<close> or a positive number.\<close>

record RunnerSettings =
  settings_buildSystem :: BuildSystem
  settings_makeJobs :: MakeJobs
  settings_maxParallel :: int

text \<open>What a handler of the controller reads from its surroundings: the settings, the
  number of processors (\<^verbatim>\<open>os.cpus().length\<close>) and the time (\<^verbatim>\<open>Date.now()\<close>).\<close>

record Ambient =
  settings :: RunnerSettings
  cpus :: int
  clock :: int

text \<open>The \<^verbatim>\<open>options\<close> argument of \<^verbatim>\<open>enqueueRun\<close>; an absent key is \<open>None\<close>.\<close>

record RunOptions =
  opt_autoCloseOnSuccess :: "bool option"
  opt_runInTerminal :: "bool option"


definition quietOptions :: RunOptions where
  \<comment> \<open>\<^verbatim>\<open>{ autoCloseOnSuccess: true, runInTerminal: false }\<close>\<close>
  "quietOptions = \<lparr>opt_autoCloseOnSuccess = Some True, opt_runInTerminal = Some False\<rparr>"

text \<open>The controller owns the store, the scheduler, the four maps of the sequential queues
  and the names of the configure tasks. \<open>effects\<close> collects, in order, what the scheduler
  has done to its collaborators.\<close>

record DashboardController =
  stateStore :: StateStore
  runner :: TargetRunner
  runAllQueues :: "(string \<times> string list) list"
  runAllActive :: "(string \<times> string) list"
  runModuleQueues :: "(string \<times> string list) list"
  runModuleActive :: "(string \<times> string) list"
  configureTaskNames :: "(string \<times> string) list"
  effects :: "Effect list"


text \<open>
  The listener that the constructor registers with \<^verbatim>\<open>runner.onDidUpdate\<close>, for an update
  with status \<^verbatim>\<open>running\<close>: it writes the store and nothing else. It runs inside \<^verbatim>\<open>fire\<close>;
  the scheduler does not read the store, so running it when the scheduler's call has
  returned gives the same state. \<open>enqueue\<close> fires no other update
  (lemma \<open>enqueue_fires_running\<close>).
\<close>

definition onRunning :: "int \<Rightarrow> RunUpdate \<Rightarrow> StateStore \<Rightarrow> StateStore" where
  "onRunning now update s =
     updateRun (upd_moduleId update) (upd_target update)
       \<lparr>set_status = Running, set_exitCode = None, set_startedAt = Some (Some now), set_finishedAt = None\<rparr> s"

fun listenRunning :: "int \<Rightarrow> StateStore \<Rightarrow> Effect \<Rightarrow> StateStore" where
  "listenRunning now s (Fire update) = onRunning now update s"
| "listenRunning now s _ = s"

text \<open>\<^verbatim>\<open>this.runner.enqueue(request)\<close>, with the listener.\<close>

definition runnerEnqueue :: "int \<Rightarrow> RunRequest \<Rightarrow> DashboardController \<Rightarrow> DashboardController" where
  "runnerEnqueue now request c =
     c\<lparr>runner := fst (enqueue now request (runner c)),
       stateStore := foldl (listenRunning now) (stateStore c) (snd (enqueue now request (runner c))),
       effects := effects c @ snd (enqueue now request (runner c))\<rparr>"

text \<open>The gate of \<^verbatim>\<open>enqueueRun\<close>: the store knows the module id and the target is available
  for the module.\<close>

definition mayRun :: "DashboardController \<Rightarrow> string \<Rightarrow> string \<Rightarrow> bool" where
  "mayRun c moduleId target =
     (case getModuleState (stateStore c) moduleId of
        None \<Rightarrow> False
      | Some moduleState \<Rightarrow> isAvailable moduleState target)"

text \<open>The request that \<^verbatim>\<open>enqueueRun\<close> builds for a module whose state is \<open>moduleState\<close>.\<close>

definition buildRequest :: "Ambient \<Rightarrow> ModuleState \<Rightarrow> ModuleInfo \<Rightarrow> string \<Rightarrow> RunOptions \<Rightarrow> RunRequest" where
  "buildRequest amb moduleState m target options =
     \<lparr>req_module = m,
      req_target = target,
      useNinja = (case generator moduleState of
                    Some g \<Rightarrow> g = Ninja
                  | None \<Rightarrow> settings_buildSystem (settings amb) \<noteq> MakeBuild),
      makeJobs = (if settings_makeJobs (settings amb) = JobsText ''auto''
                  then JobsNumber (cpus amb) else settings_makeJobs (settings amb)),
      req_autoCloseOnSuccess = (case opt_autoCloseOnSuccess options of None \<Rightarrow> False | Some b \<Rightarrow> b),
      runInTerminal = Some (case opt_runInTerminal options of None \<Rightarrow> True | Some b \<Rightarrow> b)\<rparr>"

definition enqueueRun ::
  "Ambient \<Rightarrow> ModuleInfo \<Rightarrow> string \<Rightarrow> RunOptions \<Rightarrow> DashboardController \<Rightarrow> DashboardController" where
  "enqueueRun amb m target options c =
     (case getModuleState (stateStore c) (info_id m) of
        None \<Rightarrow> c
      | Some moduleState \<Rightarrow>
          if \<not> isAvailable moduleState target then c
          else runnerEnqueue (clock amb) (buildRequest amb moduleState m target options) c)"




text \<open>The loop of \<^verbatim>\<open>startNextRunAllTarget\<close> and \<^verbatim>\<open>startNextModuleTarget\<close>: shift the queue
  until a non-empty name of an available target comes out; the result is that name and
  what is left of the queue.\<close>

fun nextTarget :: "(string \<Rightarrow> bool) \<Rightarrow> string list \<Rightarrow> (string \<times> string list) option" where
  "nextTarget available [] = None"
| "nextTarget available (t # queue) =
     (if t = [] then nextTarget available queue
      else if \<not> available t then nextTarget available queue
      else Some (t, queue))"

definition startNextRunAllTarget :: "Ambient \<Rightarrow> string \<Rightarrow> DashboardController \<Rightarrow> DashboardController" where
  "startNextRunAllTarget amb moduleId c =
     (if map_of (runAllActive c) moduleId \<noteq> None then c
      else case map_of (runAllQueues c) moduleId of
        None \<Rightarrow> c
      | Some queue \<Rightarrow>
          (case getModuleState (stateStore c) moduleId of
             None \<Rightarrow> c\<lparr>runAllQueues := AList.delete moduleId (runAllQueues c)\<rparr>
           | Some moduleState \<Rightarrow>
               (case nextTarget (isAvailable moduleState) queue of
                  None \<Rightarrow> c\<lparr>runAllQueues := AList.delete moduleId (runAllQueues c)\<rparr>
                | Some (t, rest) \<Rightarrow>
                    enqueueRun amb (module moduleState) t quietOptions
                      (c\<lparr>runAllQueues := AList.update moduleId rest (runAllQueues c),
                         runAllActive := AList.update moduleId t (runAllActive c)\<rparr>))))"

definition handleRunAllCompletion ::
  "Ambient \<Rightarrow> string \<Rightarrow> string \<Rightarrow> DashboardController \<Rightarrow> DashboardController" where
  "handleRunAllCompletion amb moduleId target c =
     (if map_of (runAllActive c) moduleId \<noteq> Some target then c
      else startNextRunAllTarget amb moduleId (c\<lparr>runAllActive := AList.delete moduleId (runAllActive c)\<rparr>))"



definition startNextModuleTarget :: "Ambient \<Rightarrow> ModuleInfo \<Rightarrow> DashboardController \<Rightarrow> DashboardController" where
  "startNextModuleTarget amb m c =
     (if map_of (runModuleActive c) (info_id m) \<noteq> None then c
      else case map_of (runModuleQueues c) (info_id m) of
        None \<Rightarrow> c
      | Some queue \<Rightarrow>
          (case nextTarget (mayRun c (info_id m)) queue of
             None \<Rightarrow> c\<lparr>runModuleQueues := AList.delete (info_id m) (runModuleQueues c)\<rparr>
           | Some (t, rest) \<Rightarrow>
               enqueueRun amb m t quietOptions
                 (c\<lparr>runModuleQueues := AList.update (info_id m) rest (runModuleQueues c),
                    runModuleActive := AList.update (info_id m) t (runModuleActive c)\<rparr>)))"


definition handleRunModuleCompletion ::
  "Ambient \<Rightarrow> string \<Rightarrow> string \<Rightarrow> DashboardController \<Rightarrow> DashboardController" where
  "handleRunModuleCompletion amb moduleId target c =
     (if map_of (runModuleActive c) moduleId \<noteq> Some target then c
      else
        (let c1 = c\<lparr>runModuleActive := AList.delete moduleId (runModuleActive c)\<rparr>
         in case getModuleState (stateStore c1) moduleId of
              None \<Rightarrow> c1\<lparr>runModuleQueues := AList.delete moduleId (runModuleQueues c1)\<rparr>
            | Some moduleState \<Rightarrow> startNextModuleTarget amb (module moduleState) c1))"



text \<open>The listener in full: an update with a final status is written to the store and then
  releases the next target of the two sequential queues.\<close>

definition onDidUpdate :: "Ambient \<Rightarrow> RunUpdate \<Rightarrow> DashboardController \<Rightarrow> DashboardController" where
  "onDidUpdate amb update c =
     (if upd_status update = Running
      then c\<lparr>stateStore := onRunning (clock amb) update (stateStore c)\<rparr>
      else handleRunModuleCompletion amb (upd_moduleId update) (upd_target update)
             (handleRunAllCompletion amb (upd_moduleId update) (upd_target update)
                (c\<lparr>stateStore :=
                     updateRun (upd_moduleId update) (upd_target update)
                       \<lparr>set_status = upd_status update, set_exitCode = Some (upd_exitCode update),
                        set_startedAt = None, set_finishedAt = Some (Some (clock amb))\<rparr>
                       (stateStore c)\<rparr>)))"





section \<open>Collaborators: file system, processes, clock\<close>

text \<open>
  An error thrown by a collaborator. The rejection of the promisified \<^verbatim>\<open>execFile\<close> carries
  \<^verbatim>\<open>message\<close>, \<^verbatim>\<open>code\<close>, \<^verbatim>\<open>stdout\<close> and \<^verbatim>\<open>stderr\<close>; the code is kept as the text that
  \<^verbatim>\<open>String(error.code)\<close> gives. Every other error is an \<^verbatim>\<open>Error\<close> with its message.
\<close>

datatype JsError =
    ExecError string "string option" string string
  | PlainError string

datatype FileKind = RegularFile | Directory | OtherKind

text \<open>
  The collaborators a function awaits, as functions on a state \<open>'w\<close> of the world outside
  the extension: \<^verbatim>\<open>fs.stat\<close> (answering with the kind of the entry), \<^verbatim>\<open>fs.readFile\<close>,
  \<^verbatim>\<open>fs.mkdir\<close> with \<^verbatim>\<open>recursive\<close>, the promisified \<^verbatim>\<open>execFile\<close> (command, arguments, working
  directory when one is given), which rejects when the command cannot be started or exits
  with a code other than 0, the configure task of \<^verbatim>\<open>runConfigureTask\<close> (answering with the
  exit code of the task's process), and \<^verbatim>\<open>Date.now()\<close>.
\<close>

record 'w Host =
  h_stat :: "string \<Rightarrow> 'w \<Rightarrow> (JsError + FileKind) \<times> 'w"
  h_readFile :: "string \<Rightarrow> 'w \<Rightarrow> (JsError + string) \<times> 'w"
  h_mkdir :: "string \<Rightarrow> 'w \<Rightarrow> (JsError + unit) \<times> 'w"
  h_execFile :: "string \<Rightarrow> string list \<Rightarrow> string option \<Rightarrow> 'w \<Rightarrow> (JsError + ExecResult) \<times> 'w"
  h_configureTask :: "ModuleInfo \<Rightarrow> CMakeGenerator \<Rightarrow> 'w \<Rightarrow> (JsError + int option) \<times> 'w"
  h_now :: "'w \<Rightarrow> int"

text \<open>\<^verbatim>\<open>path.join\<close> of two segments, without the normalisation that Node adds.\<close>

definition pathJoin :: "string \<Rightarrow> string \<Rightarrow> string" where
  "pathJoin a b = a @ ''/'' @ b"

text \<open>\<^verbatim>\<open>runCommand\<close> and \<^verbatim>\<open>commandExists\<close> (utils/exec.ts).\<close>

definition runCommand ::
  "'w Host \<Rightarrow> string \<Rightarrow> string list \<Rightarrow> string \<Rightarrow> 'w \<Rightarrow> (JsError + ExecResult) \<times> 'w" where
  "runCommand h command args cwd w = h_execFile h command args (Some cwd) w"

definition commandExists :: "'w Host \<Rightarrow> string \<Rightarrow> 'w \<Rightarrow> (JsError + bool) \<times> 'w" where
  "commandExists h command w =
     (case h_execFile h command [''--version''] None w of
        (Inl e, w1) \<Rightarrow> (Inr False, w1)
      | (Inr result, w1) \<Rightarrow> (Inr True, w1))"

section \<open>Generator selection (cmake/generator.ts)\<close>

definition CACHE_FILE :: string where
  "CACHE_FILE = ''CMakeCache.txt''"

definition generatorName :: "CMakeGenerator \<Rightarrow> string" where
  "generatorName g = (case g of Ninja \<Rightarrow> ''Ninja'' | UnixMakefiles \<Rightarrow> ''Unix Makefiles'')"

text \<open>
  \<^verbatim>\<open>contents.match(/^CMAKE_GENERATOR:INTERNAL=(.+)$/m)\<close>: the first line start after which
  the literal is followed by at least one character other than a line terminator; the
  group is the rest of that line. \<open>bol\<close> says whether the current position is a line start.
\<close>

fun matchGeneratorLine :: "bool \<Rightarrow> string \<Rightarrow> string option" where
  "matchGeneratorLine bol [] = None"
| "matchGeneratorLine bol (c # cs) =
     (if bol
      then (case lit ''CMAKE_GENERATOR:INTERNAL='' (c # cs) of
              None \<Rightarrow> matchGeneratorLine (isLineTerminator c) cs
            | Some rest \<Rightarrow>
                if takeWhile (\<lambda>x. \<not> isLineTerminator x) rest \<noteq> []
                then Some (takeWhile (\<lambda>x. \<not> isLineTerminator x) rest)
                else matchGeneratorLine (isLineTerminator c) cs)
      else matchGeneratorLine (isLineTerminator c) cs)"

definition cacheGenerator :: "string \<Rightarrow> CMakeGenerator option" where
  "cacheGenerator contents =
     (case matchGeneratorLine True contents of
        None \<Rightarrow> None
      | Some captured \<Rightarrow>
          if trim captured = ''Ninja'' then Some Ninja
          else if trim captured = ''Unix Makefiles'' then Some UnixMakefiles
          else None)"

definition detectExistingGenerator ::
  "'w Host \<Rightarrow> string \<Rightarrow> 'w \<Rightarrow> (JsError + CMakeGenerator option) \<times> 'w" where
  "detectExistingGenerator h outDir w =
     (case h_readFile h (pathJoin outDir CACHE_FILE) w of
        (Inl e, w1) \<Rightarrow> (Inr None, w1)
      | (Inr contents, w1) \<Rightarrow> (Inr (cacheGenerator contents), w1))"

definition selectGenerator ::
  "'w Host \<Rightarrow> BuildSystem \<Rightarrow> string \<Rightarrow> 'w \<Rightarrow> (JsError + CMakeGenerator) \<times> 'w" where
  "selectGenerator h buildSystem outDir w =
     (case buildSystem of
        NinjaBuild \<Rightarrow> (Inr Ninja, w)
      | MakeBuild \<Rightarrow> (Inr UnixMakefiles, w)
      | Auto \<Rightarrow>
          (case detectExistingGenerator h outDir w of
             (Inl e, w1) \<Rightarrow> (Inl e, w1)
           | (Inr (Some existing), w1) \<Rightarrow> (Inr existing, w1)
           | (Inr None, w1) \<Rightarrow>
               (case commandExists h ''ninja'' w1 of
                  (Inl e, w2) \<Rightarrow> (Inl e, w2)
                | (Inr True, w2) \<Rightarrow> (Inr Ninja, w2)
                | (Inr False, w2) \<Rightarrow> (Inr UnixMakefiles, w2))))"

section \<open>Configure (cmake/configure.ts)\<close>

record ConfigureResult =
  configured :: bool
  cr_generator :: CMakeGenerator
  cr_output :: string

definition hasCMakeCache :: "'w Host \<Rightarrow> string \<Rightarrow> 'w \<Rightarrow> (JsError + bool) \<times> 'w" where
  "hasCMakeCache h modulePath w =
     (case h_stat h (pathJoin (pathJoin modulePath ''out'') ''CMakeCache.txt'') w of
        (Inr RegularFile, w1) \<Rightarrow> (Inr True, w1)
      | (_, w1) \<Rightarrow> (Inr False, w1))"

text \<open>\<^verbatim>\<open>[result.stdout, result.stderr].filter(Boolean).join('\n')\<close>.\<close>

fun joinLines :: "string list \<Rightarrow> string" where
  "joinLines [] = []"
| "joinLines [x] = x"
| "joinLines (x # y # ys) = x @ [CHR 0x0A] @ joinLines (y # ys)"

definition combinedOutput :: "ExecResult \<Rightarrow> string" where
  "combinedOutput result = joinLines (filter (\<lambda>s. s \<noteq> []) [stdout result, stderr result])"

definition configureArgs :: "CMakeGenerator \<Rightarrow> string list" where
  "configureArgs g = [''-S'', ''./'', ''-B'', ''out'', ''-G'', generatorName g]"

text \<open>\<^verbatim>\<open>ensureConfigured\<close>. The cache is looked for only when \<^verbatim>\<open>out\<close> is a directory
  (\<^verbatim>\<open>exists && (await hasCMakeCache(modulePath))\<close>).\<close>

definition ensureConfigured ::
  "'w Host \<Rightarrow> string \<Rightarrow> BuildSystem \<Rightarrow> 'w \<Rightarrow> (JsError + ConfigureResult) \<times> 'w" where
  "ensureConfigured h modulePath buildSystem w =
     (let outDir = pathJoin modulePath ''out'';
          exists = (case fst (h_stat h outDir w) of Inr Directory \<Rightarrow> True | _ \<Rightarrow> False);
          w1 = snd (h_stat h outDir w)
      in case selectGenerator h buildSystem outDir w1 of
           (Inl e, w2) \<Rightarrow> (Inl e, w2)
         | (Inr g, w2) \<Rightarrow>
             (let cached = (if exists then fst (hasCMakeCache h modulePath w2) else Inr False);
                  w3 = (if exists then snd (hasCMakeCache h modulePath w2) else w2)
              in case cached of
                   Inl e \<Rightarrow> (Inl e, w3)
                 | Inr True \<Rightarrow>
                     (Inr \<lparr>configured = False, cr_generator = g,
                           cr_output = ''Skipped configure (existing CMake cache).''\<rparr>, w3)
                 | Inr False \<Rightarrow>
                     (case h_mkdir h outDir w3 of
                        (Inl e, w4) \<Rightarrow> (Inl e, w4)
                      | (Inr u, w4) \<Rightarrow>
                          (case runCommand h ''cmake'' (configureArgs g) modulePath w4 of
                             (Inl e, w5) \<Rightarrow> (Inl e, w5)
                           | (Inr result, w5) \<Rightarrow>
                               (Inr \<lparr>configured = True, cr_generator = g,
                                     cr_output = combinedOutput result\<rparr>, w5)))))"

section \<open>Target detection (cmake/targets.ts)\<close>












section \<open>Configure and detect (the dashboard controller)\<close>












section \<open>Module discovery (discovery/modules.ts)\<close>

text \<open>A \<^verbatim>\<open>Dirent\<close>, and \<^verbatim>\<open>fs.readdir(path, { withFileTypes: true })\<close> on the file system as it
  is while the discovery runs.\<close>

record Dirent =
  d_name :: string
  d_kind :: FileKind

type_synonym Readdir = "string \<Rightarrow> JsError + Dirent list"

definition CMAKE_LISTS :: string where
  "CMAKE_LISTS = ''CMakeLists.txt''"

definition CUSTOM_TARGETS :: string where
  "CUSTOM_TARGETS = ''custom_targets.cmake''"

definition isModuleDirectory :: "Readdir \<Rightarrow> string \<Rightarrow> bool" where
  "isModuleDirectory readdir dirPath =
     (case readdir dirPath of
        Inl e \<Rightarrow> False
      | Inr entries \<Rightarrow>
          list_ex (\<lambda>entry. d_kind entry = RegularFile
                           \<and> (d_name entry = CMAKE_LISTS \<or> d_name entry = CUSTOM_TARGETS)) entries)"

text \<open>The \<^verbatim>\<open>ModuleInfo\<close> that the loop pushes for an entry; \<open>ws\<close> is
  \<^verbatim>\<open>workspaceFolder.uri.fsPath\<close>.\<close>

definition moduleOf :: "string \<Rightarrow> string \<Rightarrow> string \<Rightarrow> ModuleInfo" where
  "moduleOf ws modulesRoot entryName =
     \<lparr>info_id = ws @ '':'' @ modulesRoot @ '':'' @ entryName,
      info_name = entryName,
      info_path = pathJoin (pathJoin ws modulesRoot) entryName,
      workspaceFolder = ws\<rparr>"

text \<open>The loop over the entries of the root.\<close>

fun collectModules :: "Readdir \<Rightarrow> string \<Rightarrow> string \<Rightarrow> string set \<Rightarrow> Dirent list \<Rightarrow> ModuleInfo list" where
  "collectModules readdir ws modulesRoot excludedModules [] = []"
| "collectModules readdir ws modulesRoot excludedModules (entry # entries) =
     (if d_kind entry \<noteq> Directory then collectModules readdir ws modulesRoot excludedModules entries
      else if d_name entry \<in> excludedModules
      then collectModules readdir ws modulesRoot excludedModules entries
      else if isModuleDirectory readdir (pathJoin (pathJoin ws modulesRoot) (d_name entry))
      then moduleOf ws modulesRoot (d_name entry)
             # collectModules readdir ws modulesRoot excludedModules entries
      else collectModules readdir ws modulesRoot excludedModules entries)"

text \<open>
  \<^verbatim>\<open>modules.sort((a, b) => a.name.localeCompare(b.name))\<close>. The sort of an array is stable, so
  for a comparator that is a total preorder its result is that of the stable insertion
  sort below; \<open>compare\<close> stands for \<^verbatim>\<open>localeCompare\<close>, which depends on the locale data of
  the host.
\<close>

fun insertModule :: "(string \<Rightarrow> string \<Rightarrow> int) \<Rightarrow> ModuleInfo \<Rightarrow> ModuleInfo list \<Rightarrow> ModuleInfo list" where
  "insertModule compare x [] = [x]"
| "insertModule compare x (y # ys) =
     (if compare (info_name x) (info_name y) \<le> 0 then x # y # ys
      else y # insertModule compare x ys)"

definition sortModules :: "(string \<Rightarrow> string \<Rightarrow> int) \<Rightarrow> ModuleInfo list \<Rightarrow> ModuleInfo list" where
  "sortModules compare ms = foldr (insertModule compare) ms []"

definition discoverModules ::
  "Readdir \<Rightarrow> (string \<Rightarrow> string \<Rightarrow> int) \<Rightarrow> string \<Rightarrow> string \<Rightarrow> string set \<Rightarrow> ModuleInfo list" where
  "discoverModules readdir compare ws modulesRoot excludedModules =
     (case readdir (pathJoin ws modulesRoot) of
        Inl e \<Rightarrow> []
      | Inr entries \<Rightarrow>
          sortModules compare (collectModules readdir ws modulesRoot excludedModules entries))"

text \<open>The order of the code points of two names.\<close>

definition codePointLe :: "string \<Rightarrow> string \<Rightarrow> bool" where
  "codePointLe a b \<longleftrightarrow> (map of_char a :: nat list) \<le> map of_char b"

section \<open>Concrete inputs\<close>

text \<open>A module, a finished run and a store, used where a property is evaluated.\<close>

definition moduleA :: ModuleInfo where
  "moduleA = \<lparr>info_id = ''/ws:test:a'', info_name = ''a'', info_path = ''/ws/test/a'', workspaceFolder = ''/ws''\<rparr>"



text \<open>Requests for two targets of the module, run silently and in a terminal, and a
  scheduler with cap 2 on which the two silent requests have been enqueued.\<close>

definition requestFor :: "string \<Rightarrow> bool \<Rightarrow> RunRequest" where
  "requestFor target inTerminal =
     \<lparr>req_module = moduleA, req_target = target, useNinja = True, makeJobs = JobsNumber 4,
      req_autoCloseOnSuccess = False, runInTerminal = Some inTerminal\<rparr>"

definition runnerTwo :: TargetRunner where
  "runnerTwo =
     fst (enqueue 0 (requestFor ''flash'' False) (fst (enqueue 0 (requestFor ''all'' False) (newRunner 2))))"





text \<open>
  A world for the collaborators: regular files with their contents, directories, the
  commands that fail, the standard output of the other commands, the time, and the calls
  made so far. Every collaborator of \<open>diskHost\<close> records its call.
\<close>

datatype Call =
    Stat string
  | ReadFile string
  | Mkdir string
  | ExecFile string "string list" "string option"
  | ConfigureTask string

record Disk =
  disk_files :: "(string \<times> string) list"
  disk_dirs :: "string list"
  disk_broken :: "string list"
  disk_answers :: "(string \<times> string) list"
  disk_time :: int
  disk_calls :: "Call list"

definition diskHost :: "Disk Host" where
  "diskHost =
     \<lparr>h_stat = (\<lambda>p w.
         (if p \<in> set (disk_dirs w) then Inr Directory
          else if map_of (disk_files w) p \<noteq> None then Inr RegularFile
          else Inl (PlainError ''ENOENT''),
          w\<lparr>disk_calls := disk_calls w @ [Stat p]\<rparr>)),
      h_readFile = (\<lambda>p w.
         (case map_of (disk_files w) p of
            Some contents \<Rightarrow> Inr contents
          | None \<Rightarrow> Inl (PlainError ''ENOENT''),
          w\<lparr>disk_calls := disk_calls w @ [ReadFile p]\<rparr>)),
      h_mkdir = (\<lambda>p w. (Inr (), w\<lparr>disk_dirs := p # disk_dirs w, disk_calls := disk_calls w @ [Mkdir p]\<rparr>)),
      h_execFile = (\<lambda>command args cwd w.
         (if command \<in> set (disk_broken w)
          then Inl (ExecError ''Command failed'' (Some ''1'') [] ''failed'')
          else Inr \<lparr>stdout = (case map_of (disk_answers w) command of Some out \<Rightarrow> out | None \<Rightarrow> []),
                    stderr = []\<rparr>,
          w\<lparr>disk_calls := disk_calls w @ [ExecFile command args cwd]\<rparr>)),
      h_configureTask = (\<lambda>m g w. (Inr (Some 0), w\<lparr>disk_calls := disk_calls w @ [ConfigureTask (info_id m)]\<rparr>)),
      h_now = disk_time\<rparr>"

text \<open>A module directory without \<^verbatim>\<open>out\<close>, and one that has been configured for Ninja.\<close>

definition emptyDisk :: Disk where
  "emptyDisk = \<lparr>disk_files = [], disk_dirs = [''/ws/test/a''], disk_broken = [], disk_answers = [], disk_time = 50, disk_calls = []\<rparr>"

definition ninjaCache :: string where
  "ninjaCache =
     ''# This is the CMakeCache file.'' @ [CHR 0x0A] @
     ''CMAKE_BUILD_TYPE:STRING=Debug'' @ [CHR 0x0A] @
     ''CMAKE_GENERATOR:INTERNAL=Ninja'' @ [CHR 0x0A] @
     ''CMAKE_HOME_DIRECTORY:INTERNAL=/ws/test/a'' @ [CHR 0x0A]"

definition configuredDisk :: Disk where
  "configuredDisk =
     \<lparr>disk_files = [(''/ws/test/a/out/CMakeCache.txt'', ninjaCache)],
      disk_dirs = [''/ws/test/a'', ''/ws/test/a/out''],
      disk_broken = [], disk_answers = [], disk_time = 50, disk_calls = []\<rparr>"


definition noCMakeDisk :: Disk where
  "noCMakeDisk = emptyDisk\<lparr>disk_broken := [''cmake'']\<rparr>"

definition freshDisk :: Disk where
  "freshDisk = emptyDisk\<lparr>disk_answers := [(''cmake'', ''-- Build files have been written'')]\<rparr>"

text \<open>The module configured for Ninja where \<^verbatim>\<open>ninja\<close> lists two targets, where it prints
  nothing, and where it cannot be started.\<close>

definition ninjaDisk :: Disk where
  "ninjaDisk =
     configuredDisk\<lparr>disk_answers :=
       [(''ninja'', ''all: phony'' @ [CHR 0x0A] @ ''flash: CUSTOM_COMMAND'' @ [CHR 0x0A])]\<rparr>"


definition helpText :: string where
  "helpText =
     ''The following are some of the valid targets for this Makefile:'' @ [CHR 0x0A] @
     ''... all (the default if no target is provided)'' @ [CHR 0x0A] @
     ''... clean'' @ [CHR 0x0A] @
     ''... flash'' @ [CHR 0x0A]"


text \<open>
  What \<^verbatim>\<open>localeCompare\<close> answers for names made of ASCII letters under the root collation
  that Node's ICU data provide: the letters are compared without regard to case, and two
  names that differ in case only are ordered by the first difference, lower case first.
  So \<^verbatim>\<open>'a'.localeCompare('B')\<close> is negative, while the code point of \<open>B\<close> is the smaller one.
\<close>

definition collationKey :: "string \<Rightarrow> nat list \<times> nat list" where
  "collationKey a =
     (map (\<lambda>c. of_char (asciiUpper c)) a,
      map (\<lambda>c. if c \<in> set ''ABCDEFGHIJKLMNOPQRSTUVWXYZ'' then 1 else 0) a)"

definition letterCollate :: "string \<Rightarrow> string \<Rightarrow> int" where
  "letterCollate a b =
     (if collationKey a < collationKey b then - 1
      else if collationKey a = collationKey b then 0
      else 1)"

text \<open>A root with the module directories \<open>a\<close> and \<open>B\<close>, the directory \<open>b\<close> without a marker
  file, the directory \<open>c\<close>, which has one, and a file.\<close>

definition treeReaddir :: Readdir where
  "treeReaddir path =
     (case map_of
        [(''/ws/test'',
            [\<lparr>d_name = ''B'', d_kind = Directory\<rparr>, \<lparr>d_name = ''a'', d_kind = Directory\<rparr>,
             \<lparr>d_name = ''b'', d_kind = Directory\<rparr>, \<lparr>d_name = ''c'', d_kind = Directory\<rparr>,
             \<lparr>d_name = ''notes.txt'', d_kind = RegularFile\<rparr>]),
         (''/ws/test/B'', [\<lparr>d_name = ''custom_targets.cmake'', d_kind = RegularFile\<rparr>]),
         (''/ws/test/a'', [\<lparr>d_name = ''CMakeLists.txt'', d_kind = RegularFile\<rparr>,
                           \<lparr>d_name = ''src'', d_kind = Directory\<rparr>]),
         (''/ws/test/b'', []),
         (''/ws/test/c'', [\<lparr>d_name = ''CMakeLists.txt'', d_kind = RegularFile\<rparr>])] path of
        None \<Rightarrow> Inl (PlainError ''ENOENT'')
      | Some entries \<Rightarrow> Inr entries)"

chapter \<open>Properties\<close>

section \<open>Classification of a completed run\<close>

lemma errorPattern_test_Nil: "\<not> errorPattern_test []"
  by (simp add: errorPattern_test_def error_body_def error_word_def)

lemma resolveOutputStatus_nonzero: "c \<noteq> 0 \<Longrightarrow> resolveOutputStatus c output = Failed"
  by (simp add: resolveOutputStatus_def)

lemma resolveOutputStatus_error_first:
  "errorPattern_test output \<Longrightarrow> resolveOutputStatus 0 output = Failed"
  using errorPattern_test_Nil by (auto simp: resolveOutputStatus_def)

lemma classify_warning_literal:
  "resolveOutputStatus 0 ''file.c:10: warning: unused variable'' = Warning"
  by code_simp

lemma classify_error_literal:
  "resolveOutputStatus 0 ''file.c:10: error: undefined reference'' = Failed"
  by code_simp

lemma silentStatus_unknown_exit: "exitCode result = None \<Longrightarrow> silentStatus result = Failed"
  by (simp add: silentStatus_def resolveOutputStatus_def)

lemma silentStatus_nonzero: "exitCode result = Some c \<Longrightarrow> c \<noteq> 0 \<Longrightarrow> silentStatus result = Failed"
  by (simp add: silentStatus_def resolveOutputStatus_def)

lemma taskEndStatus_nonzero: "code \<noteq> Some 0 \<Longrightarrow> taskEndStatus code modulePath current output = Failed"
  by (simp add: taskEndStatus_def)

text \<open>
  Claim C3. The classification of a completed run: a non-zero exit code gives \<open>Failed\<close>
  whatever the output is, and so does an unknown exit code in both places that classify
  (\<open>silentStatus\<close>, \<open>taskEndStatus\<close>); with exit code 0 the output
  \<open>file.c:10: warning: unused variable\<close> gives \<open>Warning\<close>, the output
  \<open>file.c:10: error: undefined reference\<close> gives \<open>Failed\<close>, any output matching the error
  pattern gives \<open>Failed\<close> whether or not it also matches the warning pattern, and the empty
  output gives \<open>Success\<close>, also at the end of a task whose diagnostics count no error and
  no warning.
\<close>

theorem C3_classification:
  "(c \<noteq> 0 \<longrightarrow> resolveOutputStatus c output = Failed)
   \<and> (exitCode result \<noteq> Some 0 \<longrightarrow> silentStatus result = Failed)
   \<and> (code \<noteq> Some 0 \<longrightarrow> taskEndStatus code modulePath current output = Failed)
   \<and> resolveOutputStatus 0 ''file.c:10: warning: unused variable'' = Warning
   \<and> resolveOutputStatus 0 ''file.c:10: error: undefined reference'' = Failed
   \<and> (errorPattern_test output \<longrightarrow> resolveOutputStatus 0 output = Failed)
   \<and> resolveOutputStatus 0 [] = Success
   \<and> taskEndStatus (Some 0) modulePath \<lparr>warnings = 0, errors = 0\<rparr> [] = Success"
proof -
  have silent: "exitCode result \<noteq> Some 0 \<longrightarrow> silentStatus result = Failed"
    by (cases "exitCode result")
       (auto simp: silentStatus_unknown_exit silentStatus_nonzero)
  have empty: "resolveOutputStatus 0 [] = Success"
    by (simp add: resolveOutputStatus_def)
  have quiet: "taskEndStatus (Some 0) modulePath \<lparr>warnings = 0, errors = 0\<rparr> [] = Success"
    by (simp add: taskEndStatus_def resolveDiagnosticsStatus_def)
  show ?thesis
    using silent empty quiet resolveOutputStatus_nonzero taskEndStatus_nonzero
      resolveOutputStatus_error_first classify_warning_literal classify_error_literal
    by blast
qed

text \<open>The hypotheses of C3 at concrete runs: exit code 1 with a warning in the output, a
  silent run killed before it exited, a task that ended with code 2, and an output that
  matches both patterns.\<close>

theorem C3_classification_witness:
  "(1::int) \<noteq> 0
   \<and> resolveOutputStatus 1 ''a.c:1: warning: w'' = Failed
   \<and> exitCode \<lparr>stdout = ''ok'', stderr = [], exitCode = None\<rparr> \<noteq> Some 0
   \<and> silentStatus \<lparr>stdout = ''ok'', stderr = [], exitCode = None\<rparr> = Failed
   \<and> Some (2::int) \<noteq> Some 0
   \<and> taskEndStatus (Some 2) (Some ''/ws/m'') \<lparr>warnings = 0, errors = 0\<rparr> ''a.c:1: warning: w'' = Failed
   \<and> errorPattern_test ''a.c:1: warning: w; b.c:2: Fatal  Error: e''
   \<and> warningPattern_test ''a.c:1: warning: w; b.c:2: Fatal  Error: e''
   \<and> resolveOutputStatus 0 ''a.c:1: warning: w; b.c:2: Fatal  Error: e'' = Failed"
proof -
  have e: "errorPattern_test ''a.c:1: warning: w; b.c:2: Fatal  Error: e''"
    by code_simp
  have w: "warningPattern_test ''a.c:1: warning: w; b.c:2: Fatal  Error: e''"
    by code_simp
  have n: "exitCode \<lparr>stdout = ''ok'', stderr = [], exitCode = None\<rparr> \<noteq> Some 0"
    by simp
  show ?thesis
    using e w n
      C3_classification [of 1 "''a.c:1: warning: w''"
        "\<lparr>stdout = ''ok'', stderr = [], exitCode = None\<rparr>" "Some 2" "Some ''/ws/m''"
        "\<lparr>warnings = 0, errors = 0\<rparr>"]
      C3_classification [of 0 "''a.c:1: warning: w; b.c:2: Fatal  Error: e''"
        "\<lparr>stdout = ''ok'', stderr = [], exitCode = None\<rparr>" "Some 2" "Some ''/ws/m''"
        "\<lparr>warnings = 0, errors = 0\<rparr>"]
    by simp
qed

section \<open>The runs entries of the state store\<close>



lemma length_updateFirst [simp]: "length (updateFirst i f xs) = length xs"
  by (induction xs) auto












section \<open>The dispatch loop\<close>

lemma kick_stop: "\<not> (int (length (running r)) < maxParallel r \<and> pending r \<noteq> []) \<Longrightarrow> kick now r = (r, [])"
  by (subst kick.simps) (simp only: if_False)

lemma kick_step:
  "int (length (running r)) < maxParallel r \<Longrightarrow> pending r = request # rest \<Longrightarrow>
     kick now r =
       (fst (kick now (fst (execute now request (r\<lparr>pending := rest\<rparr>)))),
        snd (execute now request (r\<lparr>pending := rest\<rparr>))
          @ snd (kick now (fst (execute now request (r\<lparr>pending := rest\<rparr>)))))"
  by (subst kick.simps) (simp add: Let_def)

lemma kick_cases:
  obtains (stop) "kick now r = (r, [])"
      "\<not> (int (length (running r)) < maxParallel r \<and> pending r \<noteq> [])"
  | (step) request rest where "int (length (running r)) < maxParallel r" "pending r = request # rest"
      "kick now r =
       (fst (kick now (fst (execute now request (r\<lparr>pending := rest\<rparr>)))),
        snd (execute now request (r\<lparr>pending := rest\<rparr>))
          @ snd (kick now (fst (execute now request (r\<lparr>pending := rest\<rparr>)))))"
proof (cases "int (length (running r)) < maxParallel r \<and> pending r \<noteq> []")
  case True
  then obtain request rest where p: "pending r = request # rest"
    by (cases "pending r") auto
  with True show ?thesis
    using step kick_step by blast
next
  case False
  then show ?thesis using stop kick_stop by blast
qed

text \<open>An induction rule for the dispatch loop, with the head of the queue named.\<close>

lemma kick_induct [case_names stop step]:
  assumes stop: "\<And>now r. \<not> (int (length (running r)) < maxParallel r \<and> pending r \<noteq> []) \<Longrightarrow> P now r"
    and step: "\<And>now r request rest.
        int (length (running r)) < maxParallel r \<Longrightarrow> pending r = request # rest \<Longrightarrow>
        P now (fst (execute now request (r\<lparr>pending := rest\<rparr>))) \<Longrightarrow> P now r"
  shows "P now r"
proof (induction now r rule: kick.induct)
  case (1 now r)
  show ?case
  proof (cases "int (length (running r)) < maxParallel r \<and> pending r \<noteq> []")
    case True
    then obtain request rest where p: "pending r = request # rest"
      by (cases "pending r") auto
    have "P now (fst (execute now (hd (pending r)) (r\<lparr>pending := tl (pending r)\<rparr>)))"
      using "1.IH" [OF True refl] .
    with p True show ?thesis
      using step by simp
  next
    case False
    then show ?thesis by (rule stop)
  qed
qed


lemma maxParallel_execute: "maxParallel (fst (execute now request r)) = maxParallel r"
  by (simp add: execute_def executeInTerminal_def Let_def)

lemma maxParallel_kick: "maxParallel (fst (kick now r)) = maxParallel r"
proof (induction now r rule: kick_induct)
  case (stop now r)
  then show ?case by (simp add: kick_stop)
next
  case (step now r request rest)
  then show ?case by (simp add: kick_step maxParallel_execute)
qed






lemma effects_execute: "set (snd (execute now request r)) \<subseteq> dispatchOf request"
  by (auto simp: execute_def executeInTerminal_def Let_def dispatchOf_def)

lemma effects_kick: "e \<in> set (snd (kick now r)) \<Longrightarrow> \<exists>request \<in> set (pending r). e \<in> dispatchOf request"
proof (induction now r rule: kick_induct)
  case (stop now r)
  then show ?case by (simp add: kick_stop)
next
  case (step now r request rest)
  from step.prems step.hyps
  consider "e \<in> set (snd (execute now request (r\<lparr>pending := rest\<rparr>)))"
    | "e \<in> set (snd (kick now (fst (execute now request (r\<lparr>pending := rest\<rparr>)))))"
    by (auto simp: kick_step)
  then show ?case
  proof cases
    case 1
    then show ?thesis using effects_execute step.hyps by fastforce
  next
    case 2
    then show ?thesis using step.IH step.hyps by (auto simp: pending_execute)
  qed
qed

lemma enqueue_duplicate: "isQueuedOrRunning r (requestKey request) \<Longrightarrow> enqueue now request r = (r, [])"
  by (simp add: enqueue_def)



section \<open>The cap on parallel runs\<close>




subsection \<open>Terminal-attached runs enter the in-flight map late\<close>

text \<open>
  \<open>execute\<close> puts a silent run into the in-flight map before it returns to the loop, but a
  terminal-attached run only when \<^verbatim>\<open>executeTask\<close> has answered (\<open>taskStarted\<close>). Under cap 1,
  two terminal-attached requests enqueued one after the other are both dispatched at once,
  and the map has two entries when their tasks have started. The amended C2 above says
  nothing about this.
\<close>

lemma terminal_runs_tracked_late:
  "snd (enqueue 0 (requestFor ''all'' True) (newRunner 1))
     = [Fire (runningUpdate (requestFor ''all'' True)),
        ExecuteTask (requestKey (requestFor ''all'' True)) (requestFor ''all'' True)]
   \<and> snd (enqueue 0 (requestFor ''flash'' True) (fst (enqueue 0 (requestFor ''all'' True) (newRunner 1))))
     = [Fire (runningUpdate (requestFor ''flash'' True)),
        ExecuteTask (requestKey (requestFor ''flash'' True)) (requestFor ''flash'' True)]
   \<and> length (running
        (taskStarted (requestKey (requestFor ''flash'' True)) 2
          (taskStarted (requestKey (requestFor ''all'' True)) 1
            (fst (enqueue 0 (requestFor ''flash'' True) (fst (enqueue 0 (requestFor ''all'' True) (newRunner 1)))))))) = 2"
  by code_simp

section \<open>Escalation of a silent run\<close>

lemma kick_no_completion: "e \<in> set (snd (kick now r)) \<Longrightarrow> \<not> isCompletion e"
  using effects_kick [of e now r] by (auto simp: dispatchOf_def runningUpdate_def)

lemma silentStatus_Success: "silentStatus result = Success \<Longrightarrow> exitCode result = Some 0"
  by (cases "exitCode result") (auto simp: silentStatus_def resolveOutputStatus_def split: if_splits)

text \<open>
  Claim C5. When the command of a silent run has answered and its exit code and output do
  not classify as \<open>Success\<close>, the scheduler removes the silent entry, fires a \<open>Running\<close> update
  and starts the same request as a terminal task (\<open>runInTerminal\<close> set to true): it fires no
  event with a final status. When they classify as \<open>Success\<close>, it fires the completion event
  with status \<open>Success\<close> and exit code 0, and what follows is the dispatch loop, which fires
  no completion. So a completion event comes out of the silent path exactly when the
  silent run classifies as \<open>Success\<close>.
\<close>

theorem C5_silent_escalation:
  "(silentStatus result \<noteq> Success \<longrightarrow>
      silentFinished now request result r =
        (r\<lparr>running := AList.delete (requestKey request) (running r),
           autoCloseOnSuccess := AList.update (requestKey request) False (autoCloseOnSuccess r),
           runStartedAt := AList.update (requestKey request) now (runStartedAt r),
           taskOutput := AList.update (requestKey request) [] (taskOutput r)\<rparr>,
         [Fire (runningUpdate request),
          ExecuteTask (requestKey request) (request\<lparr>runInTerminal := Some True\<rparr>)]))
   \<and> (silentStatus result = Success \<longrightarrow>
        (\<exists>r' es. silentFinished now request result r =
                   (r', Fire (completionUpdate request Success (Some 0)) # es)
                 \<and> \<not> list_ex isCompletion es))
   \<and> (list_ex isCompletion (snd (silentFinished now request result r))
        \<longleftrightarrow> silentStatus result = Success)"
proof -
  have esc: "silentStatus result \<noteq> Success \<longrightarrow>
      silentFinished now request result r =
        (r\<lparr>running := AList.delete (requestKey request) (running r),
           autoCloseOnSuccess := AList.update (requestKey request) False (autoCloseOnSuccess r),
           runStartedAt := AList.update (requestKey request) now (runStartedAt r),
           taskOutput := AList.update (requestKey request) [] (taskOutput r)\<rparr>,
         [Fire (runningUpdate request),
          ExecuteTask (requestKey request) (request\<lparr>runInTerminal := Some True\<rparr>)])"
    by (simp add: silentFinished_def executeInTerminal_def Let_def)
  have fin: "silentStatus result = Success \<longrightarrow>
        (\<exists>r' es. silentFinished now request result r =
                   (r', Fire (completionUpdate request Success (Some 0)) # es)
                 \<and> \<not> list_ex isCompletion es)"
  proof
    assume s: "silentStatus result = Success"
    let ?r2 = "r\<lparr>running := AList.delete (requestKey request) (running r),
                  modulePaths := AList.delete (requestKey request) (modulePaths r),
                  runStartedAt := AList.delete (requestKey request) (runStartedAt r),
                  autoCloseOnSuccess := AList.delete (requestKey request) (autoCloseOnSuccess r)\<rparr>"
    have eq: "silentFinished now request result r =
                (fst (kick now ?r2), Fire (completionUpdate request Success (Some 0)) # snd (kick now ?r2))"
      using s silentStatus_Success [OF s] by (simp add: silentFinished_def Let_def)
    have quiet: "\<not> list_ex isCompletion (snd (kick now ?r2))"
      using kick_no_completion by (auto simp: list_ex_iff)
    show "\<exists>r' es. silentFinished now request result r =
                   (r', Fire (completionUpdate request Success (Some 0)) # es)
                 \<and> \<not> list_ex isCompletion es"
      using eq quiet by blast
  qed
  have iff: "list_ex isCompletion (snd (silentFinished now request result r))
        \<longleftrightarrow> silentStatus result = Success"
  proof (cases "silentStatus result = Success")
    case True
    with fin obtain r' es where "silentFinished now request result r =
                   (r', Fire (completionUpdate request Success (Some 0)) # es)"
      by blast
    with True show ?thesis by (simp add: completionUpdate_def)
  next
    case False
    with esc show ?thesis by (simp add: runningUpdate_def)
  qed
  show ?thesis
    using esc fin iff by blast
qed

text \<open>C5 at a silent run of \<open>all\<close> that exits with 0 and prints a warning, and at one that
  exits with 0 and prints no diagnostic.\<close>

theorem C5_silent_escalation_witness:
  "silentStatus \<lparr>stdout = ''x.c:3: warning: unused'', stderr = [], exitCode = Some 0\<rparr> \<noteq> Success
   \<and> snd (silentFinished 7 (requestFor ''all'' False)
            \<lparr>stdout = ''x.c:3: warning: unused'', stderr = [], exitCode = Some 0\<rparr> runnerTwo)
       = [Fire (runningUpdate (requestFor ''all'' False)),
          ExecuteTask (requestKey (requestFor ''all'' False)) (requestFor ''all'' True)]
   \<and> silentStatus \<lparr>stdout = ''built'', stderr = [], exitCode = Some 0\<rparr> = Success
   \<and> snd (silentFinished 7 (requestFor ''all'' False)
            \<lparr>stdout = ''built'', stderr = [], exitCode = Some 0\<rparr> runnerTwo)
       = [Fire (completionUpdate (requestFor ''all'' False) Success (Some 0))]"
proof -
  have w: "silentStatus \<lparr>stdout = ''x.c:3: warning: unused'', stderr = [], exitCode = Some 0\<rparr> \<noteq> Success"
    by code_simp
  have s: "silentStatus \<lparr>stdout = ''built'', stderr = [], exitCode = Some 0\<rparr> = Success"
    by code_simp
  have t: "(requestFor ''all'' False)\<lparr>runInTerminal := Some True\<rparr> = requestFor ''all'' True"
    by (simp add: requestFor_def)
  have k: "snd (silentFinished 7 (requestFor ''all'' False)
            \<lparr>stdout = ''built'', stderr = [], exitCode = Some 0\<rparr> runnerTwo)
       = [Fire (completionUpdate (requestFor ''all'' False) Success (Some 0))]"
    by code_simp
  show ?thesis
    using w s t k
      C5_silent_escalation [of "\<lparr>stdout = ''x.c:3: warning: unused'', stderr = [], exitCode = Some 0\<rparr>"
        7 "requestFor ''all'' False" runnerTwo]
      C5_silent_escalation [of "\<lparr>stdout = ''built'', stderr = [], exitCode = Some 0\<rparr>"
        7 "requestFor ''all'' False" runnerTwo]
    by simp
qed

section \<open>The availability gate of the controller\<close>

lemma find_updateFirst:
  assumes "\<And>st. module (f st) = module st"
  shows "find (\<lambda>st. info_id (module st) = j) (updateFirst i f xs)
         = (if i = j then map_option f (find (\<lambda>st. info_id (module st) = j) xs)
            else find (\<lambda>st. info_id (module st) = j) xs)"
  using assms by (induction xs) auto

lemma getModuleState_updateRun:
  "getModuleState (updateRun i t u s) j =
     (if i = j
      then map_option (\<lambda>st. st\<lparr>runs := AList.update t (mergeRun (map_of (runs st) t) u) (runs st)\<rparr>)
             (getModuleState s j)
      else getModuleState s j)"
  by (simp add: getModuleState_def updateRun_def find_updateFirst)

lemma mayRun_updateRun [simp]:
  "mayRun (c\<lparr>stateStore := updateRun i t u (stateStore c)\<rparr>) j x = mayRun c j x"
  by (cases "getModuleState (stateStore c) j")
     (auto simp: mayRun_def getModuleState_updateRun isAvailable_def)









lemma effects_enqueue:
  "e \<in> set (snd (enqueue now request r)) \<Longrightarrow>
     \<exists>item \<in> insert request (set (pending r)). e \<in> dispatchOf item"
proof (cases "isQueuedOrRunning r (requestKey request)")
  case True
  assume "e \<in> set (snd (enqueue now request r))"
  with True show ?thesis by (simp add: enqueue_duplicate)
next
  case False
  assume "e \<in> set (snd (enqueue now request r))"
  with False show ?thesis
    using effects_kick [of e now] by (fastforce simp: enqueue_def Let_def)
qed

lemma enqueue_fires_running:
  "Fire update \<in> set (snd (enqueue now request r)) \<Longrightarrow> upd_status update = Running"
  using effects_enqueue [of "Fire update" now request r]
  by (auto simp: dispatchOf_def runningUpdate_def)




lemma buildRequest_sel [simp]:
  "req_module (buildRequest amb st m target options) = m"
  "req_target (buildRequest amb st m target options) = target"
  by (simp_all add: buildRequest_def)

















section \<open>Duplicate requests and rerun-failed\<close>











































subsection \<open>A second request while the task of the first one starts\<close>

text \<open>
  Between the dispatch of a terminal-attached request and the answer of \<^verbatim>\<open>executeTask\<close> its
  key is neither pending nor in the in-flight map (see \<open>terminal_runs_tracked_late\<close>), so
  a second \<open>enqueue\<close> of the same request in that interval is dispatched as well. The
  amended C1 says nothing about this interval.
\<close>

lemma second_enqueue_while_task_starts:
  "snd (enqueue 0 (requestFor ''all'' True) (fst (enqueue 0 (requestFor ''all'' True) (newRunner 4))))
     = [Fire (runningUpdate (requestFor ''all'' True)),
        ExecuteTask (requestKey (requestFor ''all'' True)) (requestFor ''all'' True)]"
  by code_simp

section \<open>Generator selection\<close>





section \<open>Configure\<close>

lemma combinedOutput_eq:
  "combinedOutput \<lparr>stdout = a, stderr = b\<rparr>
     = (if a = [] then b else if b = [] then a else a @ [CHR 0x0A] @ b)"
  by (simp add: combinedOutput_def)

text \<open>
  Claim C9 as stated, that without a cache \<open>ensureConfigured\<close> returns \<open>configured = true\<close>,
  fails when the configure command fails: \<open>runCommand\<close> rejects, nothing catches the
  rejection, and \<open>ensureConfigured\<close> raises the error of the command.
\<close>

theorem C9_skips_counterexample:
  "fst (h_stat diskHost ''/ws/test/a/out'' noCMakeDisk) = Inl (PlainError ''ENOENT'')
   \<and> fst (ensureConfigured diskHost ''/ws/test/a'' NinjaBuild noCMakeDisk)
       = Inl (ExecError ''Command failed'' (Some ''1'') [] ''failed'')"
  by code_simp

text \<open>
  Claim C9, amended. When \<open>out\<close> is a directory and the cache is a regular file,
  \<open>ensureConfigured\<close> returns \<open>configured = false\<close> with the selected generator, and the world
  is the one after the two \<open>stat\<close> calls and the selection: no directory is made and no
  command is run. Otherwise it makes the directory and runs \<open>cmake -S ./ -B out -G\<close> with the
  selected generator; when both succeed it returns \<open>configured = true\<close> with the standard
  output and the standard error joined by a newline, an empty one left out; when making
  the directory or the command fails, it raises that error.
\<close>

theorem C9_ensure_configured:
  "(h_stat h (pathJoin p ''out'') w = (Inr Directory, w1)
      \<and> selectGenerator h b (pathJoin p ''out'') w1 = (Inr g, w2)
      \<and> h_stat h (pathJoin (pathJoin p ''out'') ''CMakeCache.txt'') w2 = (Inr RegularFile, w3)
      \<longrightarrow> ensureConfigured h p b w
          = (Inr \<lparr>configured = False, cr_generator = g,
                   cr_output = ''Skipped configure (existing CMake cache).''\<rparr>, w3))
   \<and> (h_stat h (pathJoin p ''out'') w = (st, w1)
      \<and> selectGenerator h b (pathJoin p ''out'') w1 = (Inr g, w2)
      \<and> (if st = Inr Directory
           then h_stat h (pathJoin (pathJoin p ''out'') ''CMakeCache.txt'') w2 = (cst, w3)
                \<and> cst \<noteq> Inr RegularFile
           else w3 = w2)
      \<and> h_mkdir h (pathJoin p ''out'') w3 = (made, w4)
      \<and> h_execFile h ''cmake'' [''-S'', ''./'', ''-B'', ''out'', ''-G'', generatorName g] (Some p) w4 = (outcome, w5)
      \<longrightarrow> ensureConfigured h p b w
          = (case made of
               Inl e \<Rightarrow> (Inl e, w4)
             | Inr u \<Rightarrow>
                 (case outcome of
                    Inl e \<Rightarrow> (Inl e, w5)
                  | Inr result \<Rightarrow>
                      (Inr \<lparr>configured = True, cr_generator = g,
                            cr_output = combinedOutput result\<rparr>, w5))))
   \<and> combinedOutput \<lparr>stdout = out, stderr = err\<rparr>
       = (if out = [] then err else if err = [] then out else out @ [CHR 0x0A] @ err)"
proof -
  have skip: "h_stat h (pathJoin p ''out'') w = (Inr Directory, w1)
      \<and> selectGenerator h b (pathJoin p ''out'') w1 = (Inr g, w2)
      \<and> h_stat h (pathJoin (pathJoin p ''out'') ''CMakeCache.txt'') w2 = (Inr RegularFile, w3)
      \<longrightarrow> ensureConfigured h p b w
          = (Inr \<lparr>configured = False, cr_generator = g,
                   cr_output = ''Skipped configure (existing CMake cache).''\<rparr>, w3)"
    by (simp add: ensureConfigured_def hasCMakeCache_def Let_def)
  have nocache: "fst (hasCMakeCache h p w2) = Inr False \<and> snd (hasCMakeCache h p w2) = w3"
    if "h_stat h (pathJoin (pathJoin p ''out'') ''CMakeCache.txt'') w2 = (cst, w3)" "cst \<noteq> Inr RegularFile"
    using that by (auto simp: hasCMakeCache_def split: sum.splits FileKind.splits)
  have run: "h_stat h (pathJoin p ''out'') w = (st, w1)
      \<and> selectGenerator h b (pathJoin p ''out'') w1 = (Inr g, w2)
      \<and> (if st = Inr Directory
           then h_stat h (pathJoin (pathJoin p ''out'') ''CMakeCache.txt'') w2 = (cst, w3)
                \<and> cst \<noteq> Inr RegularFile
           else w3 = w2)
      \<and> h_mkdir h (pathJoin p ''out'') w3 = (made, w4)
      \<and> h_execFile h ''cmake'' [''-S'', ''./'', ''-B'', ''out'', ''-G'', generatorName g] (Some p) w4 = (outcome, w5)
      \<longrightarrow> ensureConfigured h p b w
          = (case made of
               Inl e \<Rightarrow> (Inl e, w4)
             | Inr u \<Rightarrow>
                 (case outcome of
                    Inl e \<Rightarrow> (Inl e, w5)
                  | Inr result \<Rightarrow>
                      (Inr \<lparr>configured = True, cr_generator = g,
                            cr_output = combinedOutput result\<rparr>, w5)))"
  proof (cases "st = Inr Directory")
    case True
    then show ?thesis
      using nocache
      by (auto simp: ensureConfigured_def Let_def runCommand_def configureArgs_def
               split: sum.splits)
  next
    case False
    then have "(case st of Inr Directory \<Rightarrow> True | _ \<Rightarrow> False) = False"
      by (auto split: sum.splits FileKind.splits)
    then show ?thesis
      using False
      by (auto simp: ensureConfigured_def Let_def runCommand_def configureArgs_def
               split: sum.splits)
  qed
  show ?thesis
    using skip run combinedOutput_eq [of out err] by blast
qed


text \<open>C9 on the configured module, on a module without \<open>out\<close>, and on the machine where
  \<open>cmake\<close> fails.\<close>

theorem C9_ensure_configured_witness:
  "ensureConfigured diskHost ''/ws/test/a'' Auto configuredDisk
     = (Inr \<lparr>configured = False, cr_generator = Ninja,
              cr_output = ''Skipped configure (existing CMake cache).''\<rparr>,
        configuredDisk\<lparr>disk_calls := [Stat ''/ws/test/a/out'', ReadFile ''/ws/test/a/out/CMakeCache.txt'',
                                      Stat ''/ws/test/a/out/CMakeCache.txt'']\<rparr>)
   \<and> fst (ensureConfigured diskHost ''/ws/test/a'' NinjaBuild freshDisk)
       = Inr \<lparr>configured = True, cr_generator = Ninja, cr_output = ''-- Build files have been written''\<rparr>
   \<and> disk_calls (snd (ensureConfigured diskHost ''/ws/test/a'' NinjaBuild freshDisk))
       = [Stat ''/ws/test/a/out'', Mkdir ''/ws/test/a/out'',
          ExecFile ''cmake'' [''-S'', ''./'', ''-B'', ''out'', ''-G'', ''Ninja''] (Some ''/ws/test/a'')]
   \<and> fst (ensureConfigured diskHost ''/ws/test/a'' NinjaBuild noCMakeDisk)
       = Inl (ExecError ''Command failed'' (Some ''1'') [] ''failed'')"
proof -
  let ?out = "pathJoin ''/ws/test/a'' ''out''"
  let ?cache = "pathJoin ?out ''CMakeCache.txt''"
  let ?args = "[''-S'', ''./'', ''-B'', ''out'', ''-G'', generatorName Ninja]"
  \<comment> \<open>the configured module\<close>
  let ?c1 = "configuredDisk\<lparr>disk_calls := [Stat ''/ws/test/a/out'']\<rparr>"
  let ?c2 = "configuredDisk\<lparr>disk_calls := [Stat ''/ws/test/a/out'', ReadFile ''/ws/test/a/out/CMakeCache.txt'']\<rparr>"
  let ?c3 = "configuredDisk\<lparr>disk_calls := [Stat ''/ws/test/a/out'', ReadFile ''/ws/test/a/out/CMakeCache.txt'',
                                      Stat ''/ws/test/a/out/CMakeCache.txt'']\<rparr>"
  have s1: "h_stat diskHost ?out configuredDisk = (Inr Directory, ?c1)"
    by (simp add: diskHost_def configuredDisk_def pathJoin_def)
  have s2: "selectGenerator diskHost Auto ?out ?c1 = (Inr Ninja, ?c2)"
    by code_simp
  have s3: "h_stat diskHost ?cache ?c2 = (Inr RegularFile, ?c3)"
    by (simp add: diskHost_def configuredDisk_def pathJoin_def)
  from C9_ensure_configured [where h = diskHost and p = "''/ws/test/a''" and b = Auto
      and w = configuredDisk and ?w1.0 = ?c1 and ?w2.0 = ?c2 and ?w3.0 = ?c3 and g = Ninja] s1 s2 s3
  have skipped: "ensureConfigured diskHost ''/ws/test/a'' Auto configuredDisk
     = (Inr \<lparr>configured = False, cr_generator = Ninja,
              cr_output = ''Skipped configure (existing CMake cache).''\<rparr>, ?c3)"
    by blast
  \<comment> \<open>the module without \<open>out\<close>\<close>
  have run: "fst (ensureConfigured diskHost ''/ws/test/a'' NinjaBuild d)
        = (case fst (h_execFile diskHost ''cmake'' ?args (Some ''/ws/test/a'')
                       (d\<lparr>disk_dirs := ?out # disk_dirs d,
                          disk_calls := [Stat ''/ws/test/a/out'', Mkdir ''/ws/test/a/out'']\<rparr>)) of
             Inl e \<Rightarrow> Inl e
           | Inr result \<Rightarrow> Inr \<lparr>configured = True, cr_generator = Ninja, cr_output = combinedOutput result\<rparr>)
      \<and> snd (ensureConfigured diskHost ''/ws/test/a'' NinjaBuild d)
        = snd (h_execFile diskHost ''cmake'' ?args (Some ''/ws/test/a'')
                 (d\<lparr>disk_dirs := ?out # disk_dirs d,
                    disk_calls := [Stat ''/ws/test/a/out'', Mkdir ''/ws/test/a/out'']\<rparr>))"
    if d: "disk_files d = []" "disk_dirs d = [''/ws/test/a'']" "disk_calls d = []" for d
  proof -
    let ?d1 = "d\<lparr>disk_calls := [Stat ''/ws/test/a/out'']\<rparr>"
    let ?d4 = "d\<lparr>disk_dirs := ?out # disk_dirs d,
                  disk_calls := [Stat ''/ws/test/a/out'', Mkdir ''/ws/test/a/out'']\<rparr>"
    have t1: "h_stat diskHost ?out d = (Inl (PlainError ''ENOENT''), ?d1)"
      using d by (simp add: diskHost_def pathJoin_def)
    have t2: "selectGenerator diskHost NinjaBuild ?out ?d1 = (Inr Ninja, ?d1)"
      by (simp add: selectGenerator_def)
    have t3: "(if (Inl (PlainError ''ENOENT'') :: JsError + FileKind) = Inr Directory
               then h_stat diskHost ?cache ?d1 = (Inl (PlainError ''ENOENT''), ?d1)
                    \<and> (Inl (PlainError ''ENOENT'') :: JsError + FileKind) \<noteq> Inr RegularFile
               else ?d1 = ?d1)"
      by simp
    have t4: "h_mkdir diskHost ?out ?d1 = (Inr (), ?d4)"
      by (simp add: diskHost_def pathJoin_def)
    have t5: "h_execFile diskHost ''cmake'' ?args (Some ''/ws/test/a'') ?d4
                = (fst (h_execFile diskHost ''cmake'' ?args (Some ''/ws/test/a'') ?d4),
                   snd (h_execFile diskHost ''cmake'' ?args (Some ''/ws/test/a'') ?d4))"
      by simp
    from C9_ensure_configured [where h = diskHost and p = "''/ws/test/a''" and b = NinjaBuild
        and w = d and st = "Inl (PlainError ''ENOENT'')" and cst = "Inl (PlainError ''ENOENT'')"
        and ?w1.0 = ?d1 and ?w2.0 = ?d1 and ?w3.0 = ?d1 and ?w4.0 = ?d4 and g = Ninja
        and made = "Inr ()"
        and outcome = "fst (h_execFile diskHost ''cmake'' ?args (Some ''/ws/test/a'') ?d4)"
        and ?w5.0 = "snd (h_execFile diskHost ''cmake'' ?args (Some ''/ws/test/a'') ?d4)"]
      t1 t2 t3 t4 t5
    have "ensureConfigured diskHost ''/ws/test/a'' NinjaBuild d
          = (case fst (h_execFile diskHost ''cmake'' ?args (Some ''/ws/test/a'') ?d4) of
               Inl e \<Rightarrow> (Inl e, snd (h_execFile diskHost ''cmake'' ?args (Some ''/ws/test/a'') ?d4))
             | Inr result \<Rightarrow>
                 (Inr \<lparr>configured = True, cr_generator = Ninja, cr_output = combinedOutput result\<rparr>,
                  snd (h_execFile diskHost ''cmake'' ?args (Some ''/ws/test/a'') ?d4)))"
      by simp
    then show ?thesis by (simp split: sum.splits)
  qed
  have fresh: "disk_files freshDisk = []" "disk_dirs freshDisk = [''/ws/test/a'']" "disk_calls freshDisk = []"
    and broken: "disk_files noCMakeDisk = []" "disk_dirs noCMakeDisk = [''/ws/test/a'']" "disk_calls noCMakeDisk = []"
    by (simp_all add: freshDisk_def noCMakeDisk_def emptyDisk_def)
  have ok: "fst (ensureConfigured diskHost ''/ws/test/a'' NinjaBuild freshDisk)
       = Inr \<lparr>configured = True, cr_generator = Ninja, cr_output = ''-- Build files have been written''\<rparr>"
    and log: "disk_calls (snd (ensureConfigured diskHost ''/ws/test/a'' NinjaBuild freshDisk))
       = [Stat ''/ws/test/a/out'', Mkdir ''/ws/test/a/out'',
          ExecFile ''cmake'' [''-S'', ''./'', ''-B'', ''out'', ''-G'', ''Ninja''] (Some ''/ws/test/a'')]"
    using run [OF fresh]
    by (simp_all add: diskHost_def freshDisk_def emptyDisk_def combinedOutput_def generatorName_def)
  have bad: "fst (ensureConfigured diskHost ''/ws/test/a'' NinjaBuild noCMakeDisk)
       = Inl (ExecError ''Command failed'' (Some ''1'') [] ''failed'')"
    using run [OF broken]
    by (simp add: diskHost_def noCMakeDisk_def emptyDisk_def)
  show ?thesis
    using skipped ok log bad by simp
qed

section \<open>Target detection and what follows it\<close>

















section \<open>Module discovery\<close>

lemma collectModules_filter:
  "collectModules readdir ws root excluded entries
     = map (\<lambda>entry. moduleOf ws root (d_name entry))
         (filter (\<lambda>entry. d_kind entry = Directory \<and> d_name entry \<notin> excluded
                           \<and> isModuleDirectory readdir (pathJoin (pathJoin ws root) (d_name entry)))
            entries)"
  by (induction entries) auto

lemma mset_insertModule: "mset (insertModule compare x ys) = add_mset x (mset ys)"
  by (induction ys) auto

lemma mset_sortModules: "mset (sortModules compare ms) = mset ms"
  unfolding sortModules_def by (induction ms) (simp_all add: mset_insertModule)

lemma set_insertModule: "set (insertModule compare x ys) = insert x (set ys)"
  by (induction ys) auto

lemma sorted_insertModule:
  assumes total: "\<forall>a b. compare a b \<le> 0 \<or> compare b a \<le> 0"
    and trans: "\<forall>a b c. compare a b \<le> 0 \<and> compare b c \<le> 0 \<longrightarrow> compare a c \<le> 0"
    and sorted: "sorted_wrt (\<lambda>a b. compare (info_name a) (info_name b) \<le> 0) ys"
  shows "sorted_wrt (\<lambda>a b. compare (info_name a) (info_name b) \<le> 0) (insertModule compare x ys)"
  using sorted
proof (induction ys)
  case Nil
  then show ?case by simp
next
  case (Cons y ys)
  from Cons.prems have below: "\<forall>z\<in>set ys. compare (info_name y) (info_name z) \<le> 0"
    and rest: "sorted_wrt (\<lambda>a b. compare (info_name a) (info_name b) \<le> 0) ys"
    by simp_all
  show ?case
  proof (cases "compare (info_name x) (info_name y) \<le> 0")
    case True
    have "compare (info_name x) (info_name z) \<le> 0" if "z \<in> set ys" for z
    proof -
      from below that have "compare (info_name y) (info_name z) \<le> 0" by (rule bspec)
      with trans [rule_format, of "info_name x" "info_name y" "info_name z"] True
      show ?thesis by simp
    qed
    with True below rest show ?thesis by simp
  next
    case False
    with total [rule_format, of "info_name x" "info_name y"]
    have "compare (info_name y) (info_name x) \<le> 0" by simp
    with False below Cons.IH [OF rest] show ?thesis
      by (simp add: set_insertModule)
  qed
qed

lemma sorted_sortModules:
  assumes "\<forall>a b. compare a b \<le> 0 \<or> compare b a \<le> 0"
    and "\<forall>a b c. compare a b \<le> 0 \<and> compare b c \<le> 0 \<longrightarrow> compare a c \<le> 0"
  shows "sorted_wrt (\<lambda>a b. compare (info_name a) (info_name b) \<le> 0) (sortModules compare ms)"
  unfolding sortModules_def
  by (induction ms) (simp_all add: sorted_insertModule [OF assms])

lemma letterCollate_le: "letterCollate a b \<le> 0 \<longleftrightarrow> collationKey a \<le> collationKey b"
  by (auto simp: letterCollate_def)

lemma letterCollate_preorder:
  "\<forall>a b. letterCollate a b \<le> 0 \<or> letterCollate b a \<le> 0"
  "\<forall>a b c. letterCollate a b \<le> 0 \<and> letterCollate b c \<le> 0 \<longrightarrow> letterCollate a c \<le> 0"
  unfolding letterCollate_le by auto

text \<open>
  Claim C8, as stated: the modules come back in the order of the code points of their
  names. They do not: the array is sorted with \<^verbatim>\<open>localeCompare\<close>, the collation of the
  locale, under which \<open>a\<close> comes before \<open>B\<close>, while the code point of \<open>B\<close> (66) is below that
  of \<open>a\<close> (97). For the root with the module directories \<open>B\<close> and \<open>a\<close> the discovery answers
  \<open>[a, B]\<close>, which is not ascending in code-point order.
\<close>

theorem C8_code_point_order_counterexample:
  "map info_name (discoverModules treeReaddir letterCollate ''/ws'' ''test'' {''c''}) = [''a'', ''B'']
   \<and> letterCollate ''a'' ''B'' < 0
   \<and> \<not> codePointLe ''a'' ''B''
   \<and> \<not> sorted_wrt codePointLe
         (map info_name (discoverModules treeReaddir letterCollate ''/ws'' ''test'' {''c''}))"
  by code_simp

text \<open>
  Claim C8, amended: when the root cannot be read, \<^verbatim>\<open>discoverModules\<close> answers the empty
  list. When it can, the answer holds, each once per entry, exactly the modules of the
  entries that are directories, whose name is not excluded, and whose own listing can be
  read and has a regular file named \<^verbatim>\<open>CMakeLists.txt\<close> or \<^verbatim>\<open>custom_targets.cmake\<close>; and the
  answer is ascending by name under the comparison \<^verbatim>\<open>localeCompare\<close>, whenever that
  comparison is a total preorder of the names.
\<close>

theorem C8_discover_modules:
  "(readdir (pathJoin ws root) = Inl e \<longrightarrow> discoverModules readdir compare ws root excluded = [])
   \<and> (readdir (pathJoin ws root) = Inr entries \<longrightarrow>
        mset (discoverModules readdir compare ws root excluded)
          = mset (map (\<lambda>entry. moduleOf ws root (d_name entry))
               (filter (\<lambda>entry. d_kind entry = Directory \<and> d_name entry \<notin> excluded
                    \<and> isModuleDirectory readdir (pathJoin (pathJoin ws root) (d_name entry)))
                  entries))
        \<and> ((\<forall>a b. compare a b \<le> 0 \<or> compare b a \<le> 0)
             \<and> (\<forall>a b c. compare a b \<le> 0 \<and> compare b c \<le> 0 \<longrightarrow> compare a c \<le> 0)
           \<longrightarrow> sorted_wrt (\<lambda>a b. compare (info_name a) (info_name b) \<le> 0)
                 (discoverModules readdir compare ws root excluded)))"
proof (intro conjI impI)
  assume "readdir (pathJoin ws root) = Inl e"
  then show "discoverModules readdir compare ws root excluded = []"
    by (simp add: discoverModules_def)
next
  assume "readdir (pathJoin ws root) = Inr entries"
  then show "mset (discoverModules readdir compare ws root excluded)
          = mset (map (\<lambda>entry. moduleOf ws root (d_name entry))
               (filter (\<lambda>entry. d_kind entry = Directory \<and> d_name entry \<notin> excluded
                    \<and> isModuleDirectory readdir (pathJoin (pathJoin ws root) (d_name entry)))
                  entries))"
    by (simp only: discoverModules_def sum.case mset_sortModules collectModules_filter)
next
  assume root: "readdir (pathJoin ws root) = Inr entries"
    and order: "(\<forall>a b. compare a b \<le> 0 \<or> compare b a \<le> 0)
       \<and> (\<forall>a b c. compare a b \<le> 0 \<and> compare b c \<le> 0 \<longrightarrow> compare a c \<le> 0)"
  have "sorted_wrt (\<lambda>a b. compare (info_name a) (info_name b) \<le> 0)
      (sortModules compare (collectModules readdir ws root excluded entries))"
    by (rule sorted_sortModules [OF conjunct1 [OF order] conjunct2 [OF order]])
  then show "sorted_wrt (\<lambda>a b. compare (info_name a) (info_name b) \<le> 0)
      (discoverModules readdir compare ws root excluded)"
    by (simp only: discoverModules_def root sum.case)
qed

text \<open>The theorem at the root above, where \<open>b\<close> has no marker file, \<open>c\<close> is excluded
  and \<^verbatim>\<open>notes.txt\<close> is a file, and at a root that does not exist.\<close>

theorem C8_discover_modules_witness:
  "discoverModules treeReaddir letterCollate ''/ws'' ''nope'' {''c''} = []
   \<and> mset (discoverModules treeReaddir letterCollate ''/ws'' ''test'' {''c''})
       = {#moduleOf ''/ws'' ''test'' ''B'', moduleOf ''/ws'' ''test'' ''a''#}
   \<and> sorted_wrt (\<lambda>a b. letterCollate (info_name a) (info_name b) \<le> 0)
       (discoverModules treeReaddir letterCollate ''/ws'' ''test'' {''c''})"
proof -
  define entries where "entries =
     [\<lparr>d_name = ''B'', d_kind = Directory\<rparr>, \<lparr>d_name = ''a'', d_kind = Directory\<rparr>,
      \<lparr>d_name = ''b'', d_kind = Directory\<rparr>, \<lparr>d_name = ''c'', d_kind = Directory\<rparr>,
      \<lparr>d_name = ''notes.txt'', d_kind = RegularFile\<rparr>]"
  have missing: "treeReaddir (pathJoin ''/ws'' ''nope'') = Inl (PlainError ''ENOENT'')"
    by code_simp
  have root: "treeReaddir (pathJoin ''/ws'' ''test'') = Inr entries"
    unfolding entries_def by code_simp
  have kept: "filter (\<lambda>entry. d_kind entry = Directory \<and> d_name entry \<notin> {''c''}
                    \<and> isModuleDirectory treeReaddir
                        (pathJoin (pathJoin ''/ws'' ''test'') (d_name entry))) entries
      = [\<lparr>d_name = ''B'', d_kind = Directory\<rparr>, \<lparr>d_name = ''a'', d_kind = Directory\<rparr>]"
    unfolding entries_def by code_simp
  note absent = C8_discover_modules [where readdir = treeReaddir and compare = letterCollate
      and ws = "''/ws''" and root = "''nope''" and excluded = "{''c''}"
      and e = "PlainError ''ENOENT''"]
  note present = C8_discover_modules [where readdir = treeReaddir and compare = letterCollate
      and ws = "''/ws''" and root = "''test''" and excluded = "{''c''}"
      and entries = entries]
  note found = mp [OF conjunct2 [OF present] root]
  have order: "(\<forall>a b. letterCollate a b \<le> 0 \<or> letterCollate b a \<le> 0)
     \<and> (\<forall>a b c. letterCollate a b \<le> 0 \<and> letterCollate b c \<le> 0 \<longrightarrow> letterCollate a c \<le> 0)"
    by (rule conjI [OF letterCollate_preorder])
  show ?thesis
  proof (intro conjI)
    show "discoverModules treeReaddir letterCollate ''/ws'' ''nope'' {''c''} = []"
      by (rule mp [OF conjunct1 [OF absent] missing])
    show "mset (discoverModules treeReaddir letterCollate ''/ws'' ''test'' {''c''})
       = {#moduleOf ''/ws'' ''test'' ''B'', moduleOf ''/ws'' ''test'' ''a''#}"
      unfolding conjunct1 [OF found] kept by simp
    show "sorted_wrt (\<lambda>a b. letterCollate (info_name a) (info_name b) \<le> 0)
       (discoverModules treeReaddir letterCollate ''/ws'' ''test'' {''c''})"
      by (rule mp [OF conjunct2 [OF found] order])
  qed
qed


end
